theory Spec2Isabelle
  imports Complex_Main "HOL-Library.Word" "HOL-Library.Sublist"
begin

unbundle bit_operations_syntax

section \<open>Audio helper functions (src/components/LiveChat.tsx, lines 6-50)\<close>

text \<open>
  A \<open>Uint8Array\<close> is a list of 8-bit words, an \<open>Int16Array\<close> a list of 16-bit words
  read as two's complement by \<open>sint\<close>. A JavaScript "binary string" (every code unit
  below 256) is a \<open>string\<close>: one \<open>char\<close> per code unit. A finite audio sample
  (a \<open>Float32Array\<close> element, widened to a double by every read) is a \<open>real\<close>. The only
  arithmetic the helpers perform on samples is multiplication and division by \<open>32768 = 2^15\<close>,
  which is exact in binary floating point, so no rounding is lost by reading samples as reals.
  The values \<open>NaN\<close> and \<open>\<plusminus>Infinity\<close> are not samples of this model.
  Times (clock readings, durations, the playback marker) are numbers of the same kind, read
  as reals too; the sum and the quotient the code takes of them are rounded, which
  \<open>binary64\<close> below writes out.
\<close>

type_synonym byte = "8 word"
type_synonym int16 = "16 word"

text \<open>
  The exceptions the modelled code can raise. A handler that throws returns \<open>Inl\<close> with
  the exception; an \<open>async\<close> handler that throws rejects its promise, and the mutations
  it made before the throw stay in place, so its \<open>Inl\<close> carries the state as well.
\<close>

datatype js_error = TypeError | RangeError | InvalidCharacterError | NotSupportedError

subsection \<open>The platform's \<open>btoa\<close> and \<open>atob\<close>\<close>

text \<open>
  \<open>encode\<close> and \<open>decode\<close> call the browser's base64 functions. They are written out here
  as the HTML standard defines them: \<open>btoa\<close> is RFC 4648 base64 with padding, \<open>atob\<close> is
  the "forgiving-base64 decode" (ASCII whitespace is removed, up to two padding characters
  are removed when the length is a multiple of four, a length of 1 modulo 4 or a character
  outside the alphabet fails).
\<close>

definition b64chars :: string where
  "b64chars = ''ABCDEFGHIJKLMNOPQRSTUVWXYZabcdefghijklmnopqrstuvwxyz0123456789+/''"

definition b64 :: "nat \<Rightarrow> char" where
  "b64 i = b64chars ! (i mod 64)"

fun btoa_groups :: "nat list \<Rightarrow> string" where
  "btoa_groups [] = []"
| "btoa_groups [a] = [b64 (a div 4), b64 (a mod 4 * 16), CHR ''='', CHR ''='']"
| "btoa_groups [a, b] =
     [b64 (a div 4), b64 (a mod 4 * 16 + b div 16), b64 (b mod 16 * 4), CHR ''='']"
| "btoa_groups (a # b # c # rest) =
     [b64 (a div 4), b64 (a mod 4 * 16 + b div 16), b64 (b mod 16 * 4 + c div 64), b64 (c mod 64)]
       @ btoa_groups rest"

definition btoa :: "string \<Rightarrow> string" where
  "btoa binary = btoa_groups (map of_char binary)"

fun b64index :: "char \<Rightarrow> string \<Rightarrow> nat option" where
  "b64index c [] = None"
| "b64index c (x # xs) = (if c = x then Some 0 else map_option Suc (b64index c xs))"

fun those_opt :: "'a option list \<Rightarrow> 'a list option" where
  "those_opt [] = Some []"
| "those_opt (None # xs) = None"
| "those_opt (Some x # xs) = map_option (Cons x) (those_opt xs)"

fun atob_groups :: "nat list \<Rightarrow> nat list" where
  "atob_groups (a # b # c # d # rest) =
     (let n = ((a * 64 + b) * 64 + c) * 64 + d
      in [n div 65536, n div 256 mod 256, n mod 256] @ atob_groups rest)"
| "atob_groups [a, b, c] = (let n = ((a * 64 + b) * 64 + c) div 4 in [n div 256, n mod 256])"
| "atob_groups [a, b] = [(a * 64 + b) div 16]"
| "atob_groups _ = []"

definition ascii_whitespace :: "char \<Rightarrow> bool" where
  "ascii_whitespace c = (c \<in> set [CHR 0x09, CHR 0x0A, CHR 0x0C, CHR 0x0D, CHR 0x20])"

definition strip_padding :: "string \<Rightarrow> string" where
  "strip_padding d =
     (if length d mod 4 = 0 \<and> d \<noteq> [] \<and> last d = CHR ''=''
      then (let d1 = butlast d in if d1 \<noteq> [] \<and> last d1 = CHR ''='' then butlast d1 else d1)
      else d)"

definition atob :: "string \<Rightarrow> string option" where
  "atob base64 =
     (let d = strip_padding (filter (\<lambda>c. \<not> ascii_whitespace c) base64)
      in if length d mod 4 = 1 then None
         else map_option (\<lambda>ns. map char_of (atob_groups ns))
                (those_opt (map (\<lambda>c. b64index c b64chars) d)))"

text \<open>
  For reasoning about \<open>btoa\<close>: the 6-bit groups it emits for a byte sequence, and the
  number of padding characters that follow them.
\<close>

fun sextets :: "nat list \<Rightarrow> nat list" where
  "sextets [] = []"
| "sextets [a] = [a div 4, a mod 4 * 16]"
| "sextets [a, b] = [a div 4, a mod 4 * 16 + b div 16, b mod 16 * 4]"
| "sextets (a # b # c # rest) =
     [a div 4, a mod 4 * 16 + b div 16, b mod 16 * 4 + c div 64, c mod 64] @ sextets rest"

definition padding :: "nat list \<Rightarrow> nat" where
  "padding ns = (3 - length ns mod 3) mod 3"

subsection \<open>\<open>encode\<close> and \<open>decode\<close>\<close>

text \<open>
  \<open>encode\<close> (lines 7-14) builds the binary string with one \<open>String.fromCharCode\<close> per
  byte and passes it to \<open>btoa\<close>. \<open>decode\<close> (lines 16-24) passes the text to \<open>atob\<close>,
  which throws an \<open>InvalidCharacterError\<close> on malformed input, and stores one
  \<open>charCodeAt\<close> per code unit into a fresh \<open>Uint8Array\<close>.
\<close>

definition encode :: "byte list \<Rightarrow> string" where
  "encode bytes = btoa (map (\<lambda>b. char_of (unat b)) bytes)"

definition decode :: "string \<Rightarrow> js_error + byte list" where
  "decode base64 =
     (case atob base64 of
        None \<Rightarrow> Inl InvalidCharacterError
      | Some binaryString \<Rightarrow> Inr (map (\<lambda>c. word_of_nat (of_char c)) binaryString))"

subsection \<open>Typed-array views and conversions\<close>

text \<open>
  Storing a number into an \<open>Int16Array\<close> element applies the language's \<open>ToInt16\<close>: the
  number is truncated towards zero and reduced modulo \<open>2^16\<close> into the signed range. There
  is no saturation.
\<close>

definition js_truncate :: "real \<Rightarrow> int" where
  "js_truncate x = (if x < 0 then - \<lfloor>- x\<rfloor> else \<lfloor>x\<rfloor>)"

definition ToInt16 :: "real \<Rightarrow> int16" where
  "ToInt16 x = word_of_int (js_truncate x)"

text \<open>
  \<open>new Uint8Array(int16.buffer)\<close> and \<open>new Int16Array(data.buffer)\<close> are two views of the
  same bytes, little-endian on every platform the component runs on. The second throws a
  \<open>RangeError\<close> when the byte length is odd.
\<close>

fun Uint8Array_of_Int16 :: "int16 list \<Rightarrow> byte list" where
  "Uint8Array_of_Int16 [] = []"
| "Uint8Array_of_Int16 (w # ws) = ucast w # ucast (drop_bit 8 w) # Uint8Array_of_Int16 ws"

fun Int16Array_of_Uint8 :: "byte list \<Rightarrow> int16 list option" where
  "Int16Array_of_Uint8 [] = Some []"
| "Int16Array_of_Uint8 [b] = None"
| "Int16Array_of_Uint8 (lo # hi # bs) =
     map_option (Cons (word_cat hi lo)) (Int16Array_of_Uint8 bs)"

subsection \<open>\<open>createBlob\<close> (lines 40-50)\<close>

record Blob =
  data :: "string option"
  mimeType :: "string option"

definition createBlob_int16 :: "real list \<Rightarrow> int16 list" where
  "createBlob_int16 samples = map (\<lambda>x. ToInt16 (x * 32768)) samples"

definition createBlob_bytes :: "real list \<Rightarrow> byte list" where
  "createBlob_bytes samples = Uint8Array_of_Int16 (createBlob_int16 samples)"

definition createBlob :: "real list \<Rightarrow> Blob" where
  "createBlob samples =
     \<lparr>data = Some (encode (createBlob_bytes samples)),
      mimeType = Some ''audio/pcm;rate=16000''\<rparr>"

subsection \<open>\<open>decodePCMAudioData\<close> (lines 26-38)\<close>

text \<open>
  The \<open>AudioBuffer\<close> returned by \<open>ctx.createBuffer\<close> holds one sample list per channel.
  \<open>createBuffer\<close> converts its frame count to an unsigned integer (the fractional part of
  \<open>dataInt16.length / numChannels\<close> is dropped) and throws a \<open>NotSupportedError\<close> when the
  channel count or the frame count is zero. Writes of the inner loop beyond the buffer's
  length are ignored by the typed array, so the loop fills exactly \<open>frameCount\<close> frames.
\<close>

record AudioBuffer =
  sampleRate :: nat
  channels :: "real list list"

definition frames :: "AudioBuffer \<Rightarrow> nat" where
  "frames b = (case channels b of [] \<Rightarrow> 0 | c # _ \<Rightarrow> length c)"

text \<open>
  A number of the language is a binary64 value. An arithmetic operation returns the
  binary64 value nearest to its exact result, a tie going to the even significand.
  \<open>binary64\<close> is that rounding of a real: the real is divided by the unit in the last
  place of its binade (\<open>2^-1074\<close> at least, the spacing of the subnormal numbers), rounded
  to an integer, and multiplied back. A result beyond the largest finite number, which the
  language turns into an infinity, is outside this reading.
\<close>

definition round_ties_even :: "real \<Rightarrow> int" where
  "round_ties_even x =
     (let n = \<lfloor>x\<rfloor>
      in if x - of_int n < 1 / 2 then n
         else if 1 / 2 < x - of_int n then n + 1
         else if even n then n else n + 1)"

definition ulp_exponent :: "real \<Rightarrow> int" where
  "ulp_exponent x = max (\<lfloor>log 2 \<bar>x\<bar>\<rfloor> - 52) (- 1074)"

definition binary64 :: "real \<Rightarrow> real" where
  "binary64 x =
     (if x = 0 then 0
      else of_int (round_ties_even (x / 2 powr of_int (ulp_exponent x)))
             * 2 powr of_int (ulp_exponent x))"

text \<open>
  The \<open>duration\<close> attribute of an \<open>AudioBuffer\<close>: its length in frames divided by its
  sample rate, as a number of the language.
\<close>

definition duration :: "AudioBuffer \<Rightarrow> real" where
  "duration b = binary64 (real (frames b) / real (sampleRate b))"

definition decodePCMAudioData :: "byte list \<Rightarrow> nat \<Rightarrow> nat \<Rightarrow> js_error + AudioBuffer" where
  "decodePCMAudioData bytes rate numChannels =
     (case Int16Array_of_Uint8 bytes of
        None \<Rightarrow> Inl RangeError
      | Some dataInt16 \<Rightarrow>
          (let frameCount = length dataInt16 div numChannels
           in if numChannels = 0 \<or> frameCount = 0 then Inl NotSupportedError
              else Inr \<lparr>sampleRate = rate,
                        channels = map (\<lambda>channel.
                            map (\<lambda>i. real_of_int (sint (dataInt16 ! (i * numChannels + channel))) / 32768)
                              [0..<frameCount])
                          [0..<numChannels]\<rparr>))"

section \<open>Personas (src/unnamed/part_000: the agent list and the shared types)\<close>

text \<open>
  An \<open>Agent\<close> without its icon. Text is a \<open>string\<close> holding the bytes of the source
  file's UTF-8 text. Only the two agents used below are written out.
\<close>

record Agent =
  agent_id :: string
  name :: string
  description :: string
  systemInstruction :: string

definition general :: Agent where
  "general =
     \<lparr>agent_id = ''general'',
      name = ''General Assistant'',
      description = ''A friendly and helpful AI for any question.'',
      systemInstruction =
        ''You are a friendly and helpful general-purpose AI assistant. Be curious, kind, ''
        @ ''and provide detailed, accurate information.''\<rparr>"

text \<open>
  The language tutor's instruction is one template literal; it is cut here at its two
  occurrences of the placeholder \<open>{language}\<close>. The two characters after \<open>Pozna\<close> are
  outside ASCII and appear as the bytes of their UTF-8 encoding.
\<close>

definition tutor_text1 :: string where
  "tutor_text1 =
     ''You are a friendly and patient language tutor. Your goal is to help the user learn ''"

definition tutor_text2 :: string where
  "tutor_text2 =
     ''. Engage them in conversation, correct their mistakes gently, explain ''
     @ ''grammar, and introduce new vocabulary related to the conversation. Always respond ''
     @ ''primarily in ''"

definition tutor_text3 :: string where
  "tutor_text3 =
     '' unless the user asks for an explanation in English. \<newline>''
     @ ''    \<newline>''
     @ ''If the user chooses to learn Polish, you should also teach them a few words from ''
     @ ''the local Pozna''
     @ [CHR 0xE2, CHR 0x89, CHR 0x88, CHR 0xC3, CHR 0x91]
     @ '' slang, such as 'pyry' (potatoes), 'tej' (a common filler word, like 'hey' or ''
     @ [CHR 0x27]
     @ ''you know'), 'wiara' (a group of people/friends), or 'bimba' (a tram). Introduce ''
     @ ''these naturally into the conversation.''"

definition language_tutor :: Agent where
  "language_tutor =
     \<lparr>agent_id = ''language_tutor'',
      name = ''Language Tutor'',
      description = ''Helps you learn a new language.'',
      systemInstruction =
        tutor_text1 @ ''{language}'' @ tutor_text2 @ ''{language}'' @ tutor_text3\<rparr>"

section \<open>The LiveChat component (src/components/LiveChat.tsx, lines 52-252)\<close>

subsection \<open>\<open>fetchContextFromR2\<close> (lines 58-79)\<close>

text \<open>The simulated lookup: a delay, then a text chosen by the agent's id.\<close>

definition fetchContextFromR2 :: "string \<Rightarrow> string" where
  "fetchContextFromR2 agentId =
     (if agentId = ''blog_writer'' then
        ''\<newline>''
        @ ''- Recent Blog Post Title: '' @ [CHR 0x22]
        @ ''The Future of AI in Web Development'' @ [CHR 0x22] @ ''\<newline>''
        @ ''- Upcoming Topic Idea: '' @ [CHR 0x22]
        @ ''Exploring Gemini 2.5 Pro's Advanced Features'' @ [CHR 0x22] @ ''\<newline>''
        @ ''- User's preferred tone: Casual and informative.\<newline>''
        @ ''            ''
      else if agentId = ''language_tutor'' then
        ''\<newline>''
        @ ''- User's last session focus: Practicing past tense verbs in Spanish.\<newline>''
        @ ''- Common mistake: Confusing 'por' and 'para'.\<newline>''
        @ ''- Next learning goal: Introduce subjunctive mood.\<newline>''
        @ ''            ''
      else [])"

subsection \<open>Component state\<close>

text \<open>
  The five values of the \<open>SessionState\<close> union \<open>'idle' | 'fetching_context' |
  'connecting' | 'connected' | 'error'\<close>.
\<close>

datatype SessionState = st_idle | st_fetching_context | st_connecting | st_connected | st_error

datatype Speaker = user | model

record TranscriptionEntry =
  speaker :: Speaker
  entry_text :: string

text \<open>
  The server message, with the fields the handler reads. Every field is optional in the
  SDK's types, hence \<open>option\<close> throughout; \<open>transcript\<close> is the \<open>text\<close> field of a
  transcription.
\<close>

record Transcription =
  transcript :: "string option"

record Part =
  inlineData :: "Blob option"

record Content =
  parts :: "Part list option"

record LiveServerContent =
  outputTranscription :: "Transcription option"
  inputTranscription :: "Transcription option"
  turnComplete :: "bool option"
  modelTurn :: "Content option"

record LiveServerMessage =
  serverContent :: "LiveServerContent option"

text \<open>
  The resources behind the refs. The promise returned by \<open>ai.live.connect\<close> is
  represented by its settlement status; an audio context by its \<open>state\<close>; a microphone
  stream by the ids of its tracks; an \<open>AudioBufferSourceNode\<close> by its buffer. The set
  \<open>outputAudioSources\<close> is a list in insertion order, which is the order \<open>forEach\<close>
  visits; every node added is a fresh object, so the list has no notion of duplicates to lose.
\<close>

datatype promise = Pending | Fulfilled | Rejected

datatype AudioContextState = ctx_suspended | ctx_running | ctx_closed

type_synonym MediaStream = "nat list"

record AudioBufferSourceNode =
  buffer :: AudioBuffer

text \<open>
  The calls the component makes on its collaborators, logged in the order they are
  executed. Console output is not logged.
\<close>

datatype effect =
    LiveConnect string
  | GetUserMedia
  | SessionClose
  | ProcessorDisconnect
  | SourceNodeDisconnect
  | TrackStop nat
  | InputContextClose
  | OutputContextClose
  | SourceStart AudioBufferSourceNode real
  | SourceStop AudioBufferSourceNode

text \<open>
  The React state (first four fields), the refs (next ten), the log of effects, and
  \<open>pendingClose\<close>: the promises on which \<open>cleanup\<close> has chained
  \<open>session => session.close()\<close> and whose reaction has not run yet. A \<open>then\<close> callback
  never runs inside the call that registers it: it runs as a promise job once the current
  synchronous code has finished, and only if the promise is fulfilled.
\<close>

record LiveChat =
  sessionState :: SessionState
  transcriptionHistory :: "TranscriptionEntry list"
  currentUserTranscription :: string
  currentModelTranscription :: string
  sessionPromiseRef :: "promise option"
  inputAudioContextRef :: "AudioContextState option"
  outputAudioContextRef :: "AudioContextState option"
  microphoneStreamRef :: "MediaStream option"
  scriptProcessorRef :: "unit option"
  sourceNodeRef :: "unit option"
  outputAudioSources :: "AudioBufferSourceNode list"
  nextAudioStartTime :: real
  userTranscriptRef :: string
  modelTranscriptRef :: string
  effects :: "effect list"
  pendingClose :: "promise list"

text \<open>The state of a freshly mounted component (lines 90-105).\<close>

definition initial :: LiveChat where
  "initial =
     \<lparr>sessionState = st_idle,
      transcriptionHistory = [],
      currentUserTranscription = [],
      currentModelTranscription = [],
      sessionPromiseRef = None,
      inputAudioContextRef = None,
      outputAudioContextRef = None,
      microphoneStreamRef = None,
      scriptProcessorRef = None,
      sourceNodeRef = None,
      outputAudioSources = [],
      nextAudioStartTime = 0,
      userTranscriptRef = [],
      modelTranscriptRef = [],
      effects = [],
      pendingClose = []\<rparr>"

subsection \<open>\<open>cleanup\<close> (lines 107-140)\<close>

text \<open>
  One definition per statement group of the source, composed in source order. No statement
  of \<open>cleanup\<close> can throw: \<open>then\<close> and \<open>catch\<close> only register reactions; \<open>disconnect()\<close>
  without argument and \<open>track.stop()\<close> never throw; \<open>close()\<close> is called on a context
  that is not closed, and a rejection of the promise it returns goes to \<open>console.error\<close>;
  \<open>source.stop()\<close> throws only for a source that was never started, and a source enters
  the set (line 202) after its \<open>start\<close> (line 200). So \<open>cleanup\<close> is a function from
  states to states.
\<close>

definition cleanup_session :: "LiveChat \<Rightarrow> LiveChat" where
  "cleanup_session s =
     (case sessionPromiseRef s of
        None \<Rightarrow> s
      | Some p \<Rightarrow> s\<lparr>pendingClose := pendingClose s @ [p], sessionPromiseRef := None\<rparr>)"

definition cleanup_scriptProcessor :: "LiveChat \<Rightarrow> LiveChat" where
  "cleanup_scriptProcessor s =
     (case scriptProcessorRef s of
        None \<Rightarrow> s
      | Some _ \<Rightarrow> s\<lparr>effects := effects s @ [ProcessorDisconnect], scriptProcessorRef := None\<rparr>)"

definition cleanup_sourceNode :: "LiveChat \<Rightarrow> LiveChat" where
  "cleanup_sourceNode s =
     (case sourceNodeRef s of
        None \<Rightarrow> s
      | Some _ \<Rightarrow> s\<lparr>effects := effects s @ [SourceNodeDisconnect], sourceNodeRef := None\<rparr>)"

definition cleanup_microphone :: "LiveChat \<Rightarrow> LiveChat" where
  "cleanup_microphone s =
     (case microphoneStreamRef s of
        None \<Rightarrow> s
      | Some tracks \<Rightarrow>
          s\<lparr>effects := effects s @ map TrackStop tracks, microphoneStreamRef := None\<rparr>)"

definition cleanup_inputContext :: "LiveChat \<Rightarrow> LiveChat" where
  "cleanup_inputContext s =
     (case inputAudioContextRef s of
        None \<Rightarrow> s
      | Some st \<Rightarrow>
          if st \<noteq> ctx_closed
          then s\<lparr>effects := effects s @ [InputContextClose], inputAudioContextRef := None\<rparr>
          else s)"

definition cleanup_outputContext :: "LiveChat \<Rightarrow> LiveChat" where
  "cleanup_outputContext s =
     (case outputAudioContextRef s of
        None \<Rightarrow> s
      | Some st \<Rightarrow>
          if st \<noteq> ctx_closed
          then s\<lparr>effects := effects s @ [OutputContextClose], outputAudioContextRef := None\<rparr>
          else s)"

definition cleanup_rest :: "LiveChat \<Rightarrow> LiveChat" where
  "cleanup_rest s =
     s\<lparr>effects := effects s @ map SourceStop (outputAudioSources s),
       outputAudioSources := [],
       nextAudioStartTime := 0,
       sessionState := st_idle,
       userTranscriptRef := [],
       modelTranscriptRef := [],
       currentUserTranscription := [],
       currentModelTranscription := []\<rparr>"

definition cleanup :: "LiveChat \<Rightarrow> LiveChat" where
  "cleanup s =
     cleanup_rest (cleanup_outputContext (cleanup_inputContext (cleanup_microphone
       (cleanup_sourceNode (cleanup_scriptProcessor (cleanup_session s))))))"

text \<open>
  The promise jobs that run once the synchronous code has finished: each close chained on
  a fulfilled promise calls \<open>session.close()\<close>; one chained on a rejected promise only
  reaches \<open>console.error\<close>; one chained on a pending promise keeps waiting.
\<close>

definition runPromiseJobs :: "LiveChat \<Rightarrow> LiveChat" where
  "runPromiseJobs s =
     s\<lparr>effects := effects s @ map (\<lambda>_. SessionClose) (filter (\<lambda>p. p = Fulfilled) (pendingClose s)),
       pendingClose := filter (\<lambda>p. p = Pending) (pendingClose s)\<rparr>"

subsection \<open>\<open>onMessage\<close> (lines 166-204)\<close>

text \<open>
  Lines 167-175. \<open>+=\<close> on a string converts its right operand to text: a transcription
  without a \<open>text\<close> field appends the nine characters of \<open>undefined\<close>. An output
  transcription takes precedence over an input transcription in the same message.
\<close>

definition js_string :: "string option \<Rightarrow> string" where
  "js_string v = (case v of None \<Rightarrow> ''undefined'' | Some txt \<Rightarrow> txt)"

definition onMessage_transcription :: "LiveServerMessage \<Rightarrow> LiveChat \<Rightarrow> LiveChat" where
  "onMessage_transcription message s =
     (case Option.bind (serverContent message) outputTranscription of
        Some t \<Rightarrow>
          (let m = modelTranscriptRef s @ js_string (transcript t)
           in s\<lparr>modelTranscriptRef := m, currentModelTranscription := m\<rparr>)
      | None \<Rightarrow>
          (case Option.bind (serverContent message) inputTranscription of
             Some t \<Rightarrow>
               (let u = userTranscriptRef s @ js_string (transcript t)
                in s\<lparr>userTranscriptRef := u, currentUserTranscription := u\<rparr>)
           | None \<Rightarrow> s))"

text \<open>Lines 177-189.\<close>

definition onMessage_turnComplete :: "LiveServerMessage \<Rightarrow> LiveChat \<Rightarrow> LiveChat" where
  "onMessage_turnComplete message s =
     (if Option.bind (serverContent message) turnComplete = Some True
      then (let fullInput = userTranscriptRef s; fullOutput = modelTranscriptRef s
            in s\<lparr>transcriptionHistory := transcriptionHistory s @
                    [\<lparr>speaker = user, entry_text = fullInput\<rparr>,
                     \<lparr>speaker = model, entry_text = fullOutput\<rparr>],
                  userTranscriptRef := [],
                  modelTranscriptRef := [],
                  currentUserTranscription := [],
                  currentModelTranscription := []\<rparr>)
      else s)"

text \<open>
  Line 191: \<open>message.serverContent?.modelTurn?.parts[0]?.inlineData.data\<close>. Each \<open>?.\<close>
  ends the whole chain with \<open>undefined\<close> when its left side is missing; the two plain
  accesses \<open>.parts[0]\<close> and \<open>.inlineData.data\<close> throw a \<open>TypeError\<close> when \<open>parts\<close>,
  respectively \<open>inlineData\<close>, is missing. Reading index 0 of an empty array gives
  \<open>undefined\<close>.
\<close>

definition audioData :: "LiveServerMessage \<Rightarrow> js_error + string option" where
  "audioData message =
     (case serverContent message of
        None \<Rightarrow> Inr None
      | Some sc \<Rightarrow>
          (case modelTurn sc of
             None \<Rightarrow> Inr None
           | Some mt \<Rightarrow>
               (case parts mt of
                  None \<Rightarrow> Inl TypeError
                | Some [] \<Rightarrow> Inr None
                | Some (p # _) \<Rightarrow>
                    (case inlineData p of
                       None \<Rightarrow> Inl TypeError
                     | Some blob \<Rightarrow> Inr (data blob)))))"

text \<open>
  Lines 192-203, entered when the payload is a non-empty string and the output context
  exists. \<open>currentTime\<close> is the reading of \<open>outputCtx.currentTime\<close>. The handler is
  \<open>async\<close> and has one \<open>await\<close>, on line 195. \<open>onMessage_decode\<close> is the part before
  it: the marker is raised to the clock, then the payload is decoded (both \<open>decode\<close> and
  the body of \<open>decodePCMAudioData\<close> run synchronously); when decoding throws, the handler's
  promise is rejected and the marker stays raised. \<open>onMessage_schedule\<close> is the part
  after the \<open>await\<close>: it reads the marker again, as line 200 does, and line 201 adds the
  duration to it with the language's \<open>+=\<close>, a rounded addition. \<open>onMessage_audio\<close> is
  the two parts run with nothing in between.
\<close>

definition onMessage_decode ::
    "real \<Rightarrow> string \<Rightarrow> LiveChat \<Rightarrow> (js_error \<times> LiveChat) + (LiveChat \<times> AudioBuffer)" where
  "onMessage_decode currentTime audio s =
     (let s1 = s\<lparr>nextAudioStartTime := max (nextAudioStartTime s) currentTime\<rparr>
      in case decode audio of
           Inl e \<Rightarrow> Inl (e, s1)
         | Inr bytes \<Rightarrow>
             (case decodePCMAudioData bytes 24000 1 of
                Inl e \<Rightarrow> Inl (e, s1)
              | Inr audioBuffer \<Rightarrow> Inr (s1, audioBuffer)))"

definition onMessage_schedule :: "AudioBuffer \<Rightarrow> LiveChat \<Rightarrow> LiveChat" where
  "onMessage_schedule audioBuffer s =
     (let source = \<lparr>buffer = audioBuffer\<rparr>
      in s\<lparr>effects := effects s @ [SourceStart source (nextAudioStartTime s)],
           nextAudioStartTime := binary64 (nextAudioStartTime s + duration audioBuffer),
           outputAudioSources := outputAudioSources s @ [source]\<rparr>)"

text \<open>
  Line 199: the listener each source is given. When the source has finished playing (or has
  been stopped) the \<open>ended\<close> event deletes it from the set.
\<close>

definition onEnded :: "AudioBufferSourceNode \<Rightarrow> LiveChat \<Rightarrow> LiveChat" where
  "onEnded source s = s\<lparr>outputAudioSources := remove1 source (outputAudioSources s)\<rparr>"

definition onMessage_audio :: "real \<Rightarrow> string \<Rightarrow> LiveChat \<Rightarrow> (js_error \<times> LiveChat) + LiveChat" where
  "onMessage_audio currentTime audio s =
     (case onMessage_decode currentTime audio s of
        Inl r \<Rightarrow> Inl r
      | Inr (s1, audioBuffer) \<Rightarrow> Inr (onMessage_schedule audioBuffer s1))"

text \<open>
  The handler up to its \<open>await\<close>: it either throws, or ends (no audio to schedule), or
  is suspended holding a decoded buffer. \<open>onMessage\<close> is the handler run from start to end
  with nothing in between.
\<close>

definition onMessage_begin ::
    "real \<Rightarrow> LiveServerMessage \<Rightarrow> LiveChat
      \<Rightarrow> (js_error \<times> LiveChat) + (LiveChat \<times> AudioBuffer option)" where
  "onMessage_begin currentTime message s =
     (let s2 = onMessage_turnComplete message (onMessage_transcription message s)
      in case audioData message of
           Inl e \<Rightarrow> Inl (e, s2)
         | Inr None \<Rightarrow> Inr (s2, None)
         | Inr (Some audio) \<Rightarrow>
             if audio \<noteq> [] \<and> outputAudioContextRef s2 \<noteq> None
             then (case onMessage_decode currentTime audio s2 of
                     Inl r \<Rightarrow> Inl r
                   | Inr (s3, audioBuffer) \<Rightarrow> Inr (s3, Some audioBuffer))
             else Inr (s2, None))"

definition onMessage :: "real \<Rightarrow> LiveServerMessage \<Rightarrow> LiveChat \<Rightarrow> (js_error \<times> LiveChat) + LiveChat" where
  "onMessage currentTime message s =
     (let s2 = onMessage_turnComplete message (onMessage_transcription message s)
      in case audioData message of
           Inl e \<Rightarrow> Inl (e, s2)
         | Inr None \<Rightarrow> Inr s2
         | Inr (Some audio) \<Rightarrow>
             if audio \<noteq> [] \<and> outputAudioContextRef s2 \<noteq> None
             then onMessage_audio currentTime audio s2
             else Inr s2)"

subsection \<open>\<open>onOpen\<close>, \<open>onError\<close>, \<open>onClose\<close> (lines 206-216)\<close>

definition onOpen :: "LiveChat \<Rightarrow> LiveChat" where
  "onOpen s = s\<lparr>sessionState := st_connected\<rparr>"

definition onError :: "LiveChat \<Rightarrow> LiveChat" where
  "onError s = cleanup (s\<lparr>sessionState := st_error\<rparr>)"

definition onClose :: "LiveChat \<Rightarrow> LiveChat" where
  "onClose s = cleanup s"

subsection \<open>\<open>handleConnect\<close> (lines 148-252)\<close>

text \<open>
  The instruction given to \<open>ai.live.connect\<close> (lines 155-158): the agent's instruction,
  followed by the context block when the lookup returned a non-empty text.
\<close>

definition finalSystemInstruction :: "Agent \<Rightarrow> string" where
  "finalSystemInstruction agent =
     (let r2Context = fetchContextFromR2 (agent_id agent)
      in if r2Context \<noteq> []
         then systemInstruction agent
              @ ''\<newline>\<newline>--- Additional Context from R2 ---\<newline>'' @ r2Context
         else systemInstruction agent)"

text \<open>
  The handler is \<open>async\<close> with two \<open>await\<close>s; its pieces, in source order:
  \<^item> \<open>handleConnect_fetch\<close>, lines 151-155, up to the \<open>await\<close> of the context lookup;
  \<^item> \<open>handleConnect_connect\<close>, lines 156-229, up to the \<open>await\<close> of \<open>getUserMedia\<close>;
  \<^item> \<open>handleConnect_capture\<close>, lines 229-245, when the stream has been granted;
  \<^item> \<open>handleConnect_catch\<close>, lines 247-251, when anything inside \<open>try\<close> has thrown.

  Of the calls made on the way, the log keeps \<open>ai.live.connect\<close> with its instruction and
  \<open>getUserMedia\<close>; the construction and wiring of the audio graph (lines 230-245) shows
  only in the fields it fills. The capture callback installed on line 236 turns every window
  of samples into a blob with \<open>createBlob\<close> and chains its sending on the session promise;
  it changes nothing in the component's state and is not a handler of this model.
\<close>

definition handleConnect_fetch :: "LiveChat \<Rightarrow> LiveChat" where
  "handleConnect_fetch s = s\<lparr>transcriptionHistory := [], sessionState := st_fetching_context\<rparr>"

definition handleConnect_connect :: "Agent \<Rightarrow> LiveChat \<Rightarrow> LiveChat" where
  "handleConnect_connect agent s =
     s\<lparr>sessionState := st_connecting,
       effects := effects s @ [LiveConnect (finalSystemInstruction agent), GetUserMedia],
       sessionPromiseRef := Some Pending\<rparr>"

definition handleConnect_capture :: "MediaStream \<Rightarrow> LiveChat \<Rightarrow> LiveChat" where
  "handleConnect_capture stream s =
     s\<lparr>microphoneStreamRef := Some stream,
       inputAudioContextRef := Some ctx_running,
       outputAudioContextRef := Some ctx_running,
       sourceNodeRef := Some (),
       scriptProcessorRef := Some ()\<rparr>"

definition handleConnect_catch :: "LiveChat \<Rightarrow> LiveChat" where
  "handleConnect_catch s = cleanup (s\<lparr>sessionState := st_error\<rparr>)"

text \<open>
  The whole handler, run with nothing in between its pieces. Its result is \<open>Inr\<close> when the
  promise it returns is fulfilled. The guard is a plain \<open>return\<close>, and everything after it
  sits inside \<open>try\<close>/\<open>catch\<close>, so no branch rejects. The argument \<open>media\<close> is the
  outcome of \<open>getUserMedia\<close>: the stream's tracks, or \<open>None\<close> when the request is rejected,
  the one failure this run takes from its environment.
\<close>

definition handleConnect ::
    "Agent \<Rightarrow> MediaStream option \<Rightarrow> LiveChat \<Rightarrow> (js_error \<times> LiveChat) + LiveChat" where
  "handleConnect agent media s =
     (if sessionState s \<noteq> st_idle \<and> sessionState s \<noteq> st_error then Inr s
      else
        (let s2 = handleConnect_connect agent (handleConnect_fetch s)
         in case media of
              None \<Rightarrow> Inr (handleConnect_catch s2)
            | Some stream \<Rightarrow> Inr (handleConnect_capture stream s2)))"

subsection \<open>The environment\<close>

text \<open>
  The SDK settles the promise of a connection (it is fulfilled when the connection opens),
  once. \<open>sessionSettled\<close> is that event for the promise the ref holds;
  \<open>chainedSettled i\<close> is the same event for a promise that \<open>cleanup\<close> has taken from the
  ref, the \<open>i\<close>-th of those whose chained close has not run yet. The close chained on it
  runs with the next promise jobs.
\<close>

definition sessionSettled :: "promise \<Rightarrow> LiveChat \<Rightarrow> LiveChat" where
  "sessionSettled p s =
     (case sessionPromiseRef s of
        Some Pending \<Rightarrow> s\<lparr>sessionPromiseRef := Some p\<rparr>
      | _ \<Rightarrow> s)"

definition chainedSettled :: "nat \<Rightarrow> promise \<Rightarrow> LiveChat \<Rightarrow> LiveChat" where
  "chainedSettled i p s =
     (if i < length (pendingClose s) \<and> pendingClose s ! i = Pending
      then s\<lparr>pendingClose := (pendingClose s)[i := p]\<rparr>
      else s)"

text \<open>
  A sequence of server messages handled one at a time, each handler running to its end
  before the next message arrives, each with its own clock reading. A handler that throws
  keeps the mutations it made, and the next message is handled all the same.
\<close>

definition state_of :: "(js_error \<times> LiveChat) + LiveChat \<Rightarrow> LiveChat" where
  "state_of r = (case r of Inl (e, s) \<Rightarrow> s | Inr s \<Rightarrow> s)"

fun run_messages :: "(real \<times> LiveServerMessage) list \<Rightarrow> LiveChat \<Rightarrow> LiveChat" where
  "run_messages [] s = s"
| "run_messages ((currentTime, message) # rest) s =
     run_messages rest (state_of (onMessage currentTime message s))"

text \<open>
  The same with the \<open>await\<close> of the handler made visible. A handler suspended at its
  \<open>await\<close> waits in a queue with its decoded buffer; \<open>Message\<close> runs the handler of a new
  message up to its \<open>await\<close>, which may happen while earlier handlers are still waiting;
  \<open>Resume\<close> continues the handler that has waited longest; \<open>Ended\<close> is the end of a
  source's playback. Any list of events is a possible interleaving.
\<close>

datatype event = Message real LiveServerMessage | Resume | Ended AudioBufferSourceNode

fun run_events :: "event list \<Rightarrow> LiveChat \<times> AudioBuffer list \<Rightarrow> LiveChat \<times> AudioBuffer list" where
  "run_events [] c = c"
| "run_events (Message currentTime message # es) (s, waiting) =
     run_events es
       (case onMessage_begin currentTime message s of
          Inl (e, s') \<Rightarrow> (s', waiting)
        | Inr (s', None) \<Rightarrow> (s', waiting)
        | Inr (s', Some audioBuffer) \<Rightarrow> (s', waiting @ [audioBuffer]))"
| "run_events (Resume # es) (s, []) = run_events es (s, [])"
| "run_events (Resume # es) (s, audioBuffer # waiting) =
     run_events es (onMessage_schedule audioBuffer s, waiting)"
| "run_events (Ended source # es) (s, waiting) = run_events es (onEnded source s, waiting)"

section \<open>Observations on runs\<close>

text \<open>
  The playback schedule read off the effect log, in the order the calls were made: for
  every \<open>source.start\<close> the start offset and the computed end, which is the number line
  201 computes from that offset and the buffer's duration and leaves in the marker.
\<close>

fun scheduled :: "effect list \<Rightarrow> (real \<times> real) list" where
  "scheduled [] = []"
| "scheduled (SourceStart source offset # es) =
     (offset, binary64 (offset + duration (buffer source))) # scheduled es"
| "scheduled (e # es) = scheduled es"

text \<open>No segment starts before the computed end of the one scheduled before it.\<close>

fun no_overlap :: "(real \<times> real) list \<Rightarrow> bool" where
  "no_overlap [] = True"
| "no_overlap [seg] = True"
| "no_overlap ((start1, end1) # (start2, end2) # segs) =
     (end1 \<le> start2 \<and> no_overlap ((start2, end2) # segs))"

text \<open>The computed end of the last scheduled segment, if any, is no later than \<open>e\<close>.\<close>

definition ends_by :: "real \<Rightarrow> (real \<times> real) list \<Rightarrow> bool" where
  "ends_by e segs = (if segs = [] then True else snd (last segs) \<le> e)"

definition sched_inv :: "LiveChat \<Rightarrow> bool" where
  "sched_inv s =
     (no_overlap (scheduled (effects s)) \<and> ends_by (nextAudioStartTime s) (scheduled (effects s)))"

text \<open>
  The entries a turn would add if only non-empty buffers were recorded, user first: the
  reading of \<open>onTurnComplete\<close> that the handler is compared with.
\<close>

definition spec_onTurnComplete_entries :: "string \<Rightarrow> string \<Rightarrow> TranscriptionEntry list" where
  "spec_onTurnComplete_entries userBuffer modelBuffer =
     (if userBuffer \<noteq> [] then [\<lparr>speaker = user, entry_text = userBuffer\<rparr>] else [])
     @ (if modelBuffer \<noteq> [] then [\<lparr>speaker = model, entry_text = modelBuffer\<rparr>] else [])"

text \<open>
  Orderings of a teardown trace. \<open>all_before P Q\<close>: no \<open>P\<close> call comes after a \<open>Q\<close> call.
  The ordering "capture, then transport, then audio output" is \<open>spec_teardown_order\<close>:
  stopping capture is disconnecting the audio graph and stopping the microphone tracks,
  releasing the audio output is closing the output context and stopping the sources.
  Closing the input context belongs to neither group.
\<close>

fun all_before :: "('a \<Rightarrow> bool) \<Rightarrow> ('a \<Rightarrow> bool) \<Rightarrow> 'a list \<Rightarrow> bool" where
  "all_before P Q [] = True"
| "all_before P Q (x # xs) =
     ((if Q x then list_all (\<lambda>y. \<not> P y) xs else True) \<and> all_before P Q xs)"

fun capture_stop :: "effect \<Rightarrow> bool" where
  "capture_stop ProcessorDisconnect = True"
| "capture_stop SourceNodeDisconnect = True"
| "capture_stop (TrackStop t) = True"
| "capture_stop e = False"

fun transport_close :: "effect \<Rightarrow> bool" where
  "transport_close SessionClose = True"
| "transport_close e = False"

fun output_release :: "effect \<Rightarrow> bool" where
  "output_release OutputContextClose = True"
| "output_release (SourceStop source) = True"
| "output_release e = False"

definition spec_teardown_order :: "effect list \<Rightarrow> bool" where
  "spec_teardown_order trace =
     (all_before capture_stop transport_close trace
      \<and> all_before transport_close output_release trace)"

text \<open>
  The call \<open>cleanup\<close> makes on an audio context ref (none when the ref is empty or the
  context is already closed), and the ref's content afterwards.
\<close>

definition close_call :: "effect \<Rightarrow> AudioContextState option \<Rightarrow> effect list" where
  "close_call e r = (case r of None \<Rightarrow> [] | Some st \<Rightarrow> if st \<noteq> ctx_closed then [e] else [])"

definition after_close :: "AudioContextState option \<Rightarrow> AudioContextState option" where
  "after_close r = (if r = Some ctx_closed then Some ctx_closed else None)"

text \<open>The calls a handler added to the log.\<close>

definition new_effects :: "LiveChat \<Rightarrow> LiveChat \<Rightarrow> effect list" where
  "new_effects s s' = drop (length (effects s)) (effects s')"

section \<open>Example messages and sessions\<close>

definition no_content :: LiveServerContent where
  "no_content =
     \<lparr>outputTranscription = None, inputTranscription = None,
      turnComplete = None, modelTurn = None\<rparr>"

definition empty_message :: LiveServerMessage where
  "empty_message = \<lparr>serverContent = None\<rparr>"

definition turn_complete_message :: LiveServerMessage where
  "turn_complete_message = \<lparr>serverContent = Some (no_content\<lparr>turnComplete := Some True\<rparr>)\<rparr>"

definition output_text_message :: "string \<Rightarrow> LiveServerMessage" where
  "output_text_message txt =
     \<lparr>serverContent = Some (no_content\<lparr>outputTranscription := Some \<lparr>transcript = Some txt\<rparr>\<rparr>)\<rparr>"

definition input_text_message :: "string \<Rightarrow> LiveServerMessage" where
  "input_text_message txt =
     \<lparr>serverContent = Some (no_content\<lparr>inputTranscription := Some \<lparr>transcript = Some txt\<rparr>\<rparr>)\<rparr>"

definition parts_message :: "Part list \<Rightarrow> LiveServerMessage" where
  "parts_message ps = \<lparr>serverContent = Some (no_content\<lparr>modelTurn := Some \<lparr>parts = Some ps\<rparr>\<rparr>)\<rparr>"

definition audio_message :: "string \<Rightarrow> LiveServerMessage" where
  "audio_message payload =
     parts_message [\<lparr>inlineData = Some \<lparr>data = Some payload,
                                        mimeType = Some ''audio/pcm;rate=24000''\<rparr>\<rparr>]"

text \<open>A model turn whose first part carries text only, hence no \<open>inlineData\<close>.\<close>

definition text_part_message :: LiveServerMessage where
  "text_part_message = parts_message [\<lparr>inlineData = None\<rparr>]"

text \<open>
  A session started for the general assistant with a one-track microphone stream, opened,
  and its promise fulfilled.
\<close>

definition connected_example :: LiveChat where
  "connected_example =
     sessionSettled Fulfilled (onOpen (state_of (handleConnect general (Some [0]) initial)))"

text \<open>The same start before the connection has opened: the promise is still pending.\<close>

definition connecting_example :: LiveChat where
  "connecting_example = state_of (handleConnect general (Some [0]) initial)"

text \<open>
  Two starts during which \<open>cleanup\<close> runs while the handler is suspended, the rest of
  the handler running afterwards. In the first, \<open>cleanup\<close> runs during the context lookup
  (the unmount effect of lines 142-146 calls it whatever the state). In the second it runs
  during the microphone request, as \<open>onError\<close> and \<open>onClose\<close> do when the connection
  fails or closes before the microphone is granted.
\<close>

definition stale_start_example :: LiveChat where
  "stale_start_example =
     handleConnect_capture [0]
       (handleConnect_connect general (cleanup (handleConnect_fetch initial)))"

definition stale_capture_example :: LiveChat where
  "stale_capture_example =
     handleConnect_capture [0]
       (cleanup (handleConnect_connect general (handleConnect_fetch initial)))"

text \<open>The same session after two audio messages: two segments are scheduled.\<close>

definition playing_example :: LiveChat where
  "playing_example =
     run_messages [(1, audio_message ''AAAAAAAA''), (1, audio_message ''AAAAAA=='')]
       connected_example"

text \<open>The same session after the model's speech has been transcribed and the user's has not.\<close>

definition model_only_example :: LiveChat where
  "model_only_example = run_messages [(0, output_text_message ''hi there'')] connected_example"

definition hello_example :: LiveChat where
  "hello_example =
     run_messages [(0, input_text_message ''hello''), (0, output_text_message ''hi there'')]
       connected_example"

definition segment0 :: AudioBufferSourceNode where
  "segment0 = \<lparr>buffer = \<lparr>sampleRate = 24000, channels = [[0, 0, 0]]\<rparr>\<rparr>"

definition segment1 :: AudioBufferSourceNode where
  "segment1 = \<lparr>buffer = \<lparr>sampleRate = 24000, channels = [[0, 0]]\<rparr>\<rparr>"

text \<open>
  The two audio messages again, the second arriving while the handler of the first is still
  waiting at its \<open>await\<close>.
\<close>

definition interleaved_events :: "event list" where
  "interleaved_events =
     [Message 1 (audio_message ''AAAAAAAA''), Message 1 (audio_message ''AAAAAA==''),
      Resume, Resume]"

section \<open>The text chat's instruction (src/unnamed/part_001, lines 59-64)\<close>

text \<open>
  \<open>getSystemInstruction\<close> of the text chat: for the language tutor,
  \<open>agent.systemInstruction.replace(/{language}/g, selectedLanguage.name)\<close>, every
  occurrence of the placeholder replaced from left to right; for any other agent the
  instruction as it is. The second argument is the selected language's name, inserted as
  it stands: it is taken to contain no \<open>$\<close>, which \<open>replace\<close> would read as a pattern,
  and no name of the language list does.
\<close>

fun replace_language :: "string \<Rightarrow> string \<Rightarrow> string" where
  "replace_language replacement [] = []"
| "replace_language replacement (c # cs) =
     (if prefix ''{language}'' (c # cs)
      then replacement @ replace_language replacement (drop 9 cs)
      else c # replace_language replacement cs)"

definition getSystemInstruction :: "Agent \<Rightarrow> string \<Rightarrow> string" where
  "getSystemInstruction agent selectedLanguage =
     (if agent_id agent = ''language_tutor''
      then replace_language selectedLanguage (systemInstruction agent)
      else systemInstruction agent)"

section \<open>Facts about the audio helpers\<close>

lemma word_cat_split16: "word_cat (ucast (drop_bit 8 w) :: byte) (ucast w :: byte) = (w :: int16)"
  by (rule bit_word_eqI) (auto simp add: bit_word_cat_iff bit_ucast_iff bit_drop_bit_eq)

lemma Int16Array_of_Uint8_roundtrip: "Int16Array_of_Uint8 (Uint8Array_of_Int16 ws) = Some ws"
  by (induction ws) (simp_all add: word_cat_split16)

lemma sint_ToInt16: "sint (ToInt16 y) = (js_truncate y + 32768) mod 65536 - 32768"
  unfolding ToInt16_def by (simp add: int_word_sint)

lemma js_truncate_error: "\<bar>real_of_int (js_truncate y) - y\<bar> < 1"
  unfolding js_truncate_def by (auto; linarith)

lemma js_truncate_range:
  "- 32768 \<le> y \<Longrightarrow> y < 32768 \<Longrightarrow> - 32768 \<le> js_truncate y \<and> js_truncate y \<le> 32767"
  unfolding js_truncate_def by (auto; linarith)

lemma sint_ToInt16_in_range:
  assumes "- 32768 \<le> y" and "y < 32768"
  shows "sint (ToInt16 y) = js_truncate y"
proof -
  from js_truncate_range [OF assms]
  have "0 \<le> js_truncate y + 32768" and "js_truncate y + 32768 < 65536" by simp_all
  then have "(js_truncate y + 32768) mod 65536 = js_truncate y + 32768" by simp
  then show ?thesis by (simp add: sint_ToInt16)
qed

lemma decodePCMAudioData_one_channel:
  assumes "samples \<noteq> []"
  shows "decodePCMAudioData (createBlob_bytes samples) rate 1 =
           Inr \<lparr>sampleRate = rate,
                channels = [map (\<lambda>x. real_of_int (sint (ToInt16 (x * 32768))) / 32768) samples]\<rparr>"
proof -
  have "map (\<lambda>i. real_of_int (sint (createBlob_int16 samples ! i)) / 32768) [0..<length samples]
        = map (\<lambda>x. real_of_int (sint (ToInt16 (x * 32768))) / 32768) samples"
    by (rule nth_equalityI) (simp_all add: createBlob_int16_def)
  with assms show ?thesis
    by (simp add: decodePCMAudioData_def createBlob_bytes_def Int16Array_of_Uint8_roundtrip
        createBlob_int16_def)
qed

subsection \<open>Rounding\<close>

lemma round_ties_even_error: "\<bar>of_int (round_ties_even x) - x\<bar> \<le> 1 / 2"
  unfolding round_ties_even_def Let_def by (simp add: abs_le_iff)

text \<open>The rounded number is within half a unit in the last place of the exact one.\<close>

lemma binary64_error: "\<bar>binary64 x - x\<bar> \<le> 2 powr of_int (ulp_exponent x) / 2"
proof (cases "x = 0")
  case True
  then show ?thesis by (simp add: binary64_def)
next
  case False
  let ?u = "2 powr real_of_int (ulp_exponent x)"
  have u: "0 < ?u" by simp
  have "binary64 x - x = (of_int (round_ties_even (x / ?u)) - x / ?u) * ?u"
    using False u by (simp add: binary64_def algebra_simps)
  then have "\<bar>binary64 x - x\<bar> = \<bar>of_int (round_ties_even (x / ?u)) - x / ?u\<bar> * ?u"
    using u by (simp add: abs_mult)
  also have "\<dots> \<le> 1 / 2 * ?u"
    using round_ties_even_error [of "x / ?u"] u by (intro mult_right_mono) simp_all
  finally show ?thesis by simp
qed

text \<open>The rounding of a number whose binade is known, in a form that evaluates.\<close>

lemma ulp_exponent_eq:
  assumes "2 powr of_int e \<le> \<bar>x\<bar>" and "\<bar>x\<bar> < 2 powr of_int (e + 1)" and "- 1022 \<le> e"
  shows "ulp_exponent x = e - 52"
proof -
  from assms(1) have pos: "0 < \<bar>x\<bar>"
    by (rule less_le_trans [rotated]) simp
  have "\<lfloor>log 2 \<bar>x\<bar>\<rfloor> = e"
  proof (rule floor_unique)
    show "of_int e \<le> log 2 \<bar>x\<bar>" using assms(1) pos by (simp add: le_log_iff)
    show "log 2 \<bar>x\<bar> < of_int e + 1" using assms(2) pos by (simp add: log_less_iff)
  qed
  with assms(3) show ?thesis by (simp add: ulp_exponent_def)
qed

lemma binary64_eq:
  assumes "2 powr of_int e \<le> \<bar>x\<bar>" and "\<bar>x\<bar> < 2 powr of_int (e + 1)" and "- 1022 \<le> e"
  shows "binary64 x
           = of_int (round_ties_even (x / 2 powr of_int (e - 52))) * 2 powr of_int (e - 52)"
proof -
  from assms(1) have "x \<noteq> 0" by auto
  with ulp_exponent_eq [OF assms] show ?thesis by (simp add: binary64_def)
qed

subsection \<open>\<open>atob\<close> inverts \<open>btoa\<close>, \<open>decode\<close> inverts \<open>encode\<close>\<close>

lemma padding_simps:
  "padding [] = 0" "padding [a] = 2" "padding [a, b] = 1"
  "padding (a # b # c # rest) = padding rest"
  by (simp_all add: padding_def)

lemma btoa_groups_sextets:
  "btoa_groups ns = map b64 (sextets ns) @ replicate (padding ns) CHR ''=''"
  by (induction ns rule: btoa_groups.induct) (simp_all add: padding_simps numeral_2_eq_2)

lemma sextets_length:
  "(length (sextets ns) + padding ns) mod 4 = 0 \<and> length (sextets ns) mod 4 \<noteq> 1
   \<and> padding ns \<le> 2"
  by (induction ns rule: sextets.induct) (simp_all add: padding_simps)

lemma b64chars_distinct: "distinct b64chars"
  by (simp add: b64chars_def)

lemma b64chars_length: "length b64chars = 64"
  by (simp add: b64chars_def)

lemma b64chars_plain: "\<forall>c \<in> set b64chars. c \<noteq> CHR ''='' \<and> \<not> ascii_whitespace c"
  by (simp add: b64chars_def ascii_whitespace_def)

lemma b64index_nth:
  "distinct xs \<Longrightarrow> k < length xs \<Longrightarrow> b64index (xs ! k) xs = Some k"
proof (induction xs arbitrary: k)
  case Nil
  then show ?case by simp
next
  case (Cons x xs)
  show ?case
  proof (cases k)
    case 0
    then show ?thesis by simp
  next
    case (Suc j)
    with Cons.prems have "xs ! j \<noteq> x" and "distinct xs" and "j < length xs" by auto
    with Cons.IH [of j] Suc show ?thesis by simp
  qed
qed

lemma b64index_b64: "b64index (b64 i) b64chars = Some (i mod 64)"
  unfolding b64_def
  by (rule b64index_nth) (simp_all add: b64chars_distinct b64chars_length)

lemma b64_plain: "b64 i \<noteq> CHR ''='' \<and> \<not> ascii_whitespace (b64 i)"
proof -
  have "b64 i \<in> set b64chars" by (simp add: b64_def b64chars_length)
  with b64chars_plain show ?thesis by blast
qed

lemma those_opt_map_b64:
  "those_opt (map (\<lambda>c. b64index c b64chars) (map b64 xs)) = Some (map (\<lambda>i. i mod 64) xs)"
  by (induction xs) (simp_all add: b64index_b64)

lemma strip_padding_replicate:
  assumes "CHR ''='' \<notin> set xs" and "k \<le> 2" and "(length xs + k) mod 4 = 0"
  shows "strip_padding (xs @ replicate k CHR ''='') = xs"
proof -
  have l: "last xs \<noteq> CHR ''=''" if "xs \<noteq> []"
    using that assms(1) by (metis last_in_set)
  from assms(2) consider "k = 0" | "k = 1" | "k = 2" by linarith
  then show ?thesis
  proof cases
    case 1
    with l show ?thesis by (auto simp add: strip_padding_def)
  next
    case 2
    have "strip_padding (xs @ [CHR ''='']) = xs"
      using l assms(3) 2 by (auto simp add: strip_padding_def Let_def)
    with 2 show ?thesis by simp
  next
    case 3
    have "strip_padding ((xs @ [CHR ''='']) @ [CHR ''='']) = xs"
      using assms(3) 3 unfolding strip_padding_def Let_def butlast_snoc last_snoc
      by simp
    with 3 show ?thesis by (simp add: numeral_2_eq_2)
  qed
qed

lemma sextet_bounds:
  fixes a b c :: nat
  shows "a < 256 \<Longrightarrow> a div 4 < 64"
    and "a mod 4 * 16 < 64"
    and "b < 256 \<Longrightarrow> a mod 4 * 16 + b div 16 < 64"
    and "b mod 16 * 4 < 64"
    and "c < 256 \<Longrightarrow> b mod 16 * 4 + c div 64 < 64"
proof -
  have m: "a mod 4 < 4" "b mod 16 < 16" by simp_all
  show "a < 256 \<Longrightarrow> a div 4 < 64" by (simp add: div_less_iff_less_mult)
  from m show "a mod 4 * 16 < 64" and "b mod 16 * 4 < 64" by linarith+
  show "a mod 4 * 16 + b div 16 < 64" if "b < 256"
  proof -
    from that have "b div 16 < 16" by (simp add: div_less_iff_less_mult)
    with m show ?thesis by linarith
  qed
  show "b mod 16 * 4 + c div 64 < 64" if "c < 256"
  proof -
    from that have "c div 64 < 4" by (simp add: div_less_iff_less_mult)
    with m show ?thesis by linarith
  qed
qed

lemma sextets_small: "\<forall>n \<in> set ns. n < 256 \<Longrightarrow> \<forall>x \<in> set (sextets ns). x < 64"
  by (induction ns rule: sextets.induct) (simp_all add: sextet_bounds)

lemma sextets_mod: "\<forall>n \<in> set ns. n < 256 \<Longrightarrow> map (\<lambda>i. i mod 64) (sextets ns) = sextets ns"
  using sextets_small [of ns] by (simp add: map_idI)

lemma join3:
  fixes a b c :: nat
  shows "((a div 4 * 64 + (a mod 4 * 16 + b div 16)) * 64 + (b mod 16 * 4 + c div 64)) * 64 + c mod 64
         = a * 65536 + b * 256 + c"
proof -
  have "((a1 * 64 + (a0 * 16 + b1)) * 64 + (b0 * 4 + c1)) * 64 + c0
        = (a1 * 4 + a0) * 65536 + (b1 * 16 + b0) * 256 + (c1 * 64 + c0)"
    for a1 a0 b1 b0 c1 c0 :: nat
    by (simp add: algebra_simps)
  from this [of "a div 4" "a mod 4" "b div 16" "b mod 16" "c div 64" "c mod 64"]
  show ?thesis by (simp only: div_mult_mod_eq)
qed

lemma join2:
  fixes a b :: nat
  shows "((a div 4 * 64 + (a mod 4 * 16 + b div 16)) * 64 + b mod 16 * 4) div 4 = a * 256 + b"
proof -
  have "(a1 * 64 + (a0 * 16 + b1)) * 64 + b0 * 4
        = ((a1 * 4 + a0) * 256 + (b1 * 16 + b0)) * 4"
    for a1 a0 b1 b0 :: nat
    by (simp add: algebra_simps)
  from this [of "a div 4" "a mod 4" "b div 16" "b mod 16"]
  have "(a div 4 * 64 + (a mod 4 * 16 + b div 16)) * 64 + b mod 16 * 4 = (a * 256 + b) * 4"
    by (simp only: div_mult_mod_eq)
  then show ?thesis by simp
qed

lemma join1:
  fixes a :: nat
  shows "(a div 4 * 64 + a mod 4 * 16) div 16 = a"
proof -
  have "a1 * 64 + a0 * 16 = (a1 * 4 + a0) * 16" for a1 a0 :: nat
    by (simp add: algebra_simps)
  from this [of "a div 4" "a mod 4"]
  have "a div 4 * 64 + a mod 4 * 16 = a * 16"
    by (simp only: div_mult_mod_eq)
  then show ?thesis by simp
qed

lemma split_base:
  fixes a r m :: nat
  assumes "r < m"
  shows "(a * m + r) div m = a" and "(a * m + r) mod m = r"
  using assms by simp_all

lemma split3:
  fixes a b c :: nat
  assumes "b < 256" "c < 256"
  shows "(a * 65536 + b * 256 + c) div 65536 = a"
    and "(a * 65536 + b * 256 + c) div 256 mod 256 = b"
    and "(a * 65536 + b * 256 + c) mod 256 = c"
proof -
  from assms have r: "b * 256 + c < 65536" by linarith
  have n1: "a * 65536 + b * 256 + c = a * 65536 + (b * 256 + c)" by simp
  have n2: "a * 65536 + b * 256 + c = (a * 256 + b) * 256 + c" by simp
  show "(a * 65536 + b * 256 + c) div 65536 = a"
    by (subst n1) (rule split_base(1) [OF r])
  have d: "(a * 65536 + b * 256 + c) div 256 = a * 256 + b"
    by (subst n2) (rule split_base(1) [OF assms(2)])
  show "(a * 65536 + b * 256 + c) div 256 mod 256 = b"
    by (subst d) (rule split_base(2) [OF assms(1)])
  show "(a * 65536 + b * 256 + c) mod 256 = c"
    by (subst n2) (rule split_base(2) [OF assms(2)])
qed

lemma atob_groups_sextets:
  "\<forall>n \<in> set ns. n < 256 \<Longrightarrow> atob_groups (sextets ns) = ns"
proof (induction ns rule: sextets.induct)
  case 1
  then show ?case by simp
next
  case (2 a)
  have "atob_groups (sextets [a]) = [(a div 4 * 64 + a mod 4 * 16) div 16]"
    by (simp only: sextets.simps atob_groups.simps)
  then show ?case by (simp only: join1)
next
  case (3 a b)
  then have b: "b < 256" by simp
  have "atob_groups (sextets [a, b]) =
      (let n = ((a div 4 * 64 + (a mod 4 * 16 + b div 16)) * 64 + b mod 16 * 4) div 4
       in [n div 256, n mod 256])"
    by (simp only: sextets.simps atob_groups.simps)
  then show ?case by (simp only: join2 Let_def split_base [OF b])
next
  case (4 a b c rest)
  then have b: "b < 256" and c: "c < 256" and rest: "atob_groups (sextets rest) = rest"
    by simp_all
  have "atob_groups (sextets (a # b # c # rest)) =
      (let n = ((a div 4 * 64 + (a mod 4 * 16 + b div 16)) * 64 + (b mod 16 * 4 + c div 64)) * 64
                + c mod 64
       in [n div 65536, n div 256 mod 256, n mod 256] @ atob_groups (sextets rest))"
    by (simp only: sextets.simps atob_groups.simps append.simps)
  then show ?case by (simp only: join3 Let_def split3 [OF b c] rest append.simps)
qed

lemma btoa_no_whitespace: "filter (\<lambda>c. \<not> ascii_whitespace c) (btoa_groups ns) = btoa_groups ns"
proof -
  have "\<not> ascii_whitespace CHR ''=''" by (simp add: ascii_whitespace_def)
  then have "\<forall>c \<in> set (btoa_groups ns). \<not> ascii_whitespace c"
    by (auto simp add: btoa_groups_sextets b64_plain)
  then show ?thesis by simp
qed

lemma strip_padding_btoa: "strip_padding (btoa_groups ns) = map b64 (sextets ns)"
proof -
  have "CHR ''='' \<noteq> b64 i" for i
    using b64_plain [of i] by auto
  then have "CHR ''='' \<notin> set (map b64 (sextets ns))"
    by auto
  moreover have "padding ns \<le> 2"
    and "(length (map b64 (sextets ns)) + padding ns) mod 4 = 0"
    using sextets_length [of ns] by simp_all
  ultimately show ?thesis
    unfolding btoa_groups_sextets by (rule strip_padding_replicate)
qed

lemma atob_btoa: "atob (btoa binary) = Some binary"
proof -
  let ?ns = "map of_char binary :: nat list"
  have small: "\<forall>n \<in> set ?ns. n < 256" by simp
  have len: "length (map b64 (sextets ?ns)) mod 4 \<noteq> 1"
    using sextets_length [of ?ns] by simp
  have idx: "those_opt (map (\<lambda>c. b64index c b64chars) (map b64 (sextets ?ns))) = Some (sextets ?ns)"
    by (simp only: those_opt_map_b64 sextets_mod [OF small])
  have "map char_of (atob_groups (sextets ?ns)) = binary"
    by (simp add: atob_groups_sextets [OF small] comp_def)
  with len idx show ?thesis
    by (simp add: atob_def btoa_def btoa_no_whitespace strip_padding_btoa Let_def)
qed

lemma decode_encode: "decode (encode bytes) = Inr bytes"
proof -
  have "word_of_nat (of_char (char_of (unat b) :: char) :: nat) = b" for b :: byte
  proof -
    have "unat b < 2 ^ LENGTH(8)" by (rule unsigned_less)
    then have "unat b mod 256 = unat b" by simp
    then show ?thesis by simp
  qed
  then have "map (\<lambda>c. word_of_nat (of_char c)) (map (\<lambda>b. char_of (unat b)) bytes) = bytes"
    by (simp add: comp_def map_idI)
  then show ?thesis by (simp add: decode_def encode_def atob_btoa)
qed

subsection \<open>Samples\<close>

lemma createBlob_payload:
  "\<exists>payload bytes.
     data (createBlob samples) = Some payload
     \<and> decode payload = Inr bytes
     \<and> Int16Array_of_Uint8 bytes = Some (createBlob_int16 samples)"
  by (simp add: createBlob_def decode_encode createBlob_bytes_def Int16Array_of_Uint8_roundtrip)

lemma js_truncate_bounds:
  "(- 32768 \<le> js_truncate y) = (- 32769 < y)"
  "(js_truncate y < 32768) = (y < 32768)"
  unfolding js_truncate_def by (auto simp add: le_floor_iff floor_less_iff) linarith+

lemma js_truncate_towards_zero:
  "js_truncate y = (if 0 \<le> y then \<lfloor>y\<rfloor> else \<lceil>y\<rceil>)"
  by (simp add: js_truncate_def ceiling_def)

lemma sint_ToInt16_plain_iff:
  "(sint (ToInt16 y) = js_truncate y) = (- 32769 < y \<and> y < 32768)"
proof -
  have "((T + 32768) mod 65536 - 32768 = T) = (- 32768 \<le> T \<and> T < 32768)" for T :: int
    by auto
  from this [of "js_truncate y"] show ?thesis
    by (simp add: sint_ToInt16 js_truncate_bounds)
qed

text \<open>
  C3 (as the code has it). The capture conversion does not clamp. The 16-bit values that
  \<open>createBlob\<close> puts on the wire are \<open>createBlob_int16\<close>: every sample is scaled by
  32768, truncated towards zero (down for a positive product, up for a negative one) and
  reduced modulo \<open>2^16\<close> into the signed 16-bit range. The reduction changes nothing, so
  that the stored value is the truncated product, exactly for the samples strictly between
  \<open>-1 - 1/32768\<close> and \<open>1\<close>; among them, every sample from there up to \<open>-1\<close> is stored as
  the minimum \<open>-32768\<close>. Every other sample wraps around; a sample from \<open>1\<close> up to
  \<open>1 + 1/32768\<close> is stored as \<open>-32768\<close> too.
\<close>

theorem createBlob_int16_wraps:
  assumes "i < length samples"
  shows "(\<exists>payload bytes.
            data (createBlob samples) = Some payload
            \<and> decode payload = Inr bytes
            \<and> Int16Array_of_Uint8 bytes = Some (createBlob_int16 samples))
         \<and> sint (createBlob_int16 samples ! i)
              = (js_truncate (samples ! i * 32768) + 32768) mod 65536 - 32768
         \<and> js_truncate (samples ! i * 32768)
              = (if 0 \<le> samples ! i then \<lfloor>samples ! i * 32768\<rfloor>
                 else \<lceil>samples ! i * 32768\<rceil>)
         \<and> (sint (createBlob_int16 samples ! i) = js_truncate (samples ! i * 32768))
              = (- 1 - 1 / 32768 < samples ! i \<and> samples ! i < 1)
         \<and> (- 1 - 1 / 32768 < samples ! i \<and> samples ! i \<le> - 1 \<longrightarrow>
              sint (createBlob_int16 samples ! i) = - 32768)
         \<and> (1 \<le> samples ! i \<and> samples ! i < 1 + 1 / 32768 \<longrightarrow>
              sint (createBlob_int16 samples ! i) = - 32768)"
proof -
  let ?x = "samples ! i"
  have eq: "createBlob_int16 samples ! i = ToInt16 (?x * 32768)"
    using assms by (simp add: createBlob_int16_def)
  have wrap: "sint (createBlob_int16 samples ! i)
            = (js_truncate (?x * 32768) + 32768) mod 65536 - 32768"
    by (simp add: eq sint_ToInt16)
  have trunc: "js_truncate (?x * 32768)
            = (if 0 \<le> ?x then \<lfloor>?x * 32768\<rfloor> else \<lceil>?x * 32768\<rceil>)"
    by (simp add: js_truncate_towards_zero)
  have plain: "(sint (createBlob_int16 samples ! i) = js_truncate (?x * 32768))
              = (- 1 - 1 / 32768 < ?x \<and> ?x < 1)"
    unfolding eq sint_ToInt16_plain_iff by (auto simp add: field_simps)
  have low: "sint (createBlob_int16 samples ! i) = - 32768"
    if "- 1 - 1 / 32768 < ?x \<and> ?x \<le> - 1"
  proof -
    from that have "js_truncate (?x * 32768) = - 32768"
      unfolding js_truncate_def by (simp add: field_simps) linarith
    with that plain show ?thesis by simp
  qed
  have high: "sint (createBlob_int16 samples ! i) = - 32768"
    if "1 \<le> ?x \<and> ?x < 1 + 1 / 32768"
  proof -
    from that have "js_truncate (?x * 32768) = 32768"
      unfolding js_truncate_def by (simp add: field_simps) linarith
    with wrap show ?thesis by simp
  qed
  from createBlob_payload [of samples] wrap trunc plain low high show ?thesis by blast
qed

theorem createBlob_int16_wraps_witness:
  "sint (createBlob_int16 [1 / 2, - 1, 3 / 2, - 65537 / 65536] ! 1) = - 32768
   \<and> sint (createBlob_int16 [1 / 2, - 1, 3 / 2, - 65537 / 65536] ! 1)
       = js_truncate (- 1 * 32768)
   \<and> sint (createBlob_int16 [1 / 2, - 1, 3 / 2, - 65537 / 65536] ! 3) = - 32768
   \<and> sint (createBlob_int16 [1 / 2, - 1, 3 / 2, - 65537 / 65536] ! 3)
       = js_truncate (- 65537 / 65536 * 32768)
   \<and> sint (createBlob_int16 [1 / 2, - 1, 3 / 2, - 65537 / 65536] ! 2)
       \<noteq> js_truncate (3 / 2 * 32768)"
  using createBlob_int16_wraps [of 1 "[1 / 2, - 1, 3 / 2, - 65537 / 65536]"]
    createBlob_int16_wraps [of 3 "[1 / 2, - 1, 3 / 2, - 65537 / 65536]"]
    createBlob_int16_wraps [of 2 "[1 / 2, - 1, 3 / 2, - 65537 / 65536]"]
  by (simp add: js_truncate_def)

text \<open>
  C3 (as stated) fails: a sample of exactly 1 is stored as the most negative value, and a
  sample of -3/2 as a positive one.
\<close>

theorem createBlob_int16_no_clamp_counterexample:
  "sint (createBlob_int16 [1, - 3 / 2] ! 0) = - 32768
   \<and> sint (createBlob_int16 [1, - 3 / 2] ! 0) \<noteq> 32767
   \<and> sint (createBlob_int16 [1, - 3 / 2] ! 1) = 16384
   \<and> sint (createBlob_int16 [1, - 3 / 2] ! 1) \<noteq> - 32768"
  by (simp add: createBlob_int16_def ToInt16_def js_truncate_def)

text \<open>
  C2 (as the code has it). Take any captured buffer, the blob \<open>createBlob\<close> makes of it,
  the bytes \<open>decode\<close> reads from the blob's text, and the audio buffer
  \<open>decodePCMAudioData\<close> makes of those bytes. Every sample of the captured buffer that
  lies in \<open>[-1, 1)\<close> comes back within less than \<open>1/32768\<close> of its value, whatever the
  other samples are.
\<close>

theorem pcm_roundtrip:
  assumes "i < length samples" and "- 1 \<le> samples ! i" and "samples ! i < 1"
  shows "\<exists>payload bytes ys.
           data (createBlob samples) = Some payload
           \<and> decode payload = Inr bytes
           \<and> decodePCMAudioData bytes rate 1 = Inr \<lparr>sampleRate = rate, channels = [ys]\<rparr>
           \<and> length ys = length samples
           \<and> \<bar>ys ! i - samples ! i\<bar> < 1 / 32768"
proof -
  let ?x = "samples ! i"
  let ?ys = "map (\<lambda>x. real_of_int (sint (ToInt16 (x * 32768))) / 32768) samples"
  from assms(1) have ne: "samples \<noteq> []" by auto
  from assms(2,3) have "- 32768 \<le> ?x * 32768" and "?x * 32768 < 32768" by simp_all
  then have s: "sint (ToInt16 (?x * 32768)) = js_truncate (?x * 32768)"
    by (rule sint_ToInt16_in_range)
  have "\<bar>real_of_int (js_truncate (?x * 32768)) - ?x * 32768\<bar> < 1"
    by (rule js_truncate_error)
  then have "\<bar>real_of_int (js_truncate (?x * 32768)) / 32768 - ?x\<bar> < 1 / 32768"
    by (simp add: field_simps abs_less_iff)
  with s assms(1) have close: "\<bar>?ys ! i - ?x\<bar> < 1 / 32768" by (simp del: of_int_sint)
  have len: "length ?ys = length samples" by simp
  have blob: "data (createBlob samples) = Some (encode (createBlob_bytes samples))"
    by (simp add: createBlob_def)
  have bytes: "decode (encode (createBlob_bytes samples)) = Inr (createBlob_bytes samples)"
    by (rule decode_encode)
  from blob bytes decodePCMAudioData_one_channel [OF ne, of rate] len close
  show ?thesis by blast
qed

theorem pcm_roundtrip_witness:
  "\<exists>payload bytes ys.
      data (createBlob [3 / 10, 1]) = Some payload
      \<and> decode payload = Inr bytes
      \<and> decodePCMAudioData bytes 24000 1 = Inr \<lparr>sampleRate = 24000, channels = [ys]\<rparr>
      \<and> length ys = length [3 / 10, 1 :: real]
      \<and> \<bar>ys ! 0 - [3 / 10, 1] ! 0\<bar> < 1 / 32768"
  using pcm_roundtrip [of 0 "[3 / 10, 1]" 24000] by simp

text \<open>
  C2 (as stated) fails at the in-range sample 1: it is encoded as -32768 and decoded as -1,
  at distance 2 from the original.
\<close>

theorem pcm_roundtrip_counterexample:
  "data (createBlob [1]) = Some (encode (createBlob_bytes [1]))
   \<and> decode (encode (createBlob_bytes [1])) = Inr (createBlob_bytes [1])
   \<and> decodePCMAudioData (createBlob_bytes [1]) 24000 1
       = Inr \<lparr>sampleRate = 24000, channels = [[- 1]]\<rparr>
   \<and> \<not> \<bar>(- 1 :: real) - 1\<bar> \<le> 1 / 32768"
  using decodePCMAudioData_one_channel [of "[1]" 24000]
  by (simp add: ToInt16_def js_truncate_def createBlob_def decode_encode)

section \<open>Facts about teardown\<close>

text \<open>Each step of \<open>cleanup\<close> as one unconditional update.\<close>

lemma cleanup_session_eq:
  "cleanup_session s =
     s\<lparr>pendingClose := pendingClose s @ (case sessionPromiseRef s of None \<Rightarrow> [] | Some p \<Rightarrow> [p]),
       sessionPromiseRef := None\<rparr>"
  by (cases "sessionPromiseRef s") (simp_all add: cleanup_session_def)

lemma cleanup_scriptProcessor_eq:
  "cleanup_scriptProcessor s =
     s\<lparr>effects := effects s
          @ (case scriptProcessorRef s of None \<Rightarrow> [] | Some _ \<Rightarrow> [ProcessorDisconnect]),
       scriptProcessorRef := None\<rparr>"
  by (cases "scriptProcessorRef s") (simp_all add: cleanup_scriptProcessor_def)

lemma cleanup_sourceNode_eq:
  "cleanup_sourceNode s =
     s\<lparr>effects := effects s
          @ (case sourceNodeRef s of None \<Rightarrow> [] | Some _ \<Rightarrow> [SourceNodeDisconnect]),
       sourceNodeRef := None\<rparr>"
  by (cases "sourceNodeRef s") (simp_all add: cleanup_sourceNode_def)

lemma cleanup_microphone_eq:
  "cleanup_microphone s =
     s\<lparr>effects := effects s
          @ (case microphoneStreamRef s of None \<Rightarrow> [] | Some tracks \<Rightarrow> map TrackStop tracks),
       microphoneStreamRef := None\<rparr>"
  by (cases "microphoneStreamRef s") (simp_all add: cleanup_microphone_def)

lemma cleanup_inputContext_eq:
  "cleanup_inputContext s =
     s\<lparr>effects := effects s @ close_call InputContextClose (inputAudioContextRef s),
       inputAudioContextRef := after_close (inputAudioContextRef s)\<rparr>"
  by (cases "inputAudioContextRef s")
     (simp_all add: cleanup_inputContext_def close_call_def after_close_def)

lemma cleanup_outputContext_eq:
  "cleanup_outputContext s =
     s\<lparr>effects := effects s @ close_call OutputContextClose (outputAudioContextRef s),
       outputAudioContextRef := after_close (outputAudioContextRef s)\<rparr>"
  by (cases "outputAudioContextRef s")
     (simp_all add: cleanup_outputContext_def close_call_def after_close_def)

lemmas cleanup_steps =
  cleanup_session_eq cleanup_scriptProcessor_eq cleanup_sourceNode_eq cleanup_microphone_eq
  cleanup_inputContext_eq cleanup_outputContext_eq cleanup_rest_def

lemma cleanup_fields:
  "sessionState (cleanup s) = st_idle"
  "sessionPromiseRef (cleanup s) = None"
  "microphoneStreamRef (cleanup s) = None"
  "scriptProcessorRef (cleanup s) = None"
  "sourceNodeRef (cleanup s) = None"
  "outputAudioSources (cleanup s) = []"
  "nextAudioStartTime (cleanup s) = 0"
  "userTranscriptRef (cleanup s) = []"
  "modelTranscriptRef (cleanup s) = []"
  "currentUserTranscription (cleanup s) = []"
  "currentModelTranscription (cleanup s) = []"
  "transcriptionHistory (cleanup s) = transcriptionHistory s"
  "inputAudioContextRef (cleanup s) = after_close (inputAudioContextRef s)"
  "outputAudioContextRef (cleanup s) = after_close (outputAudioContextRef s)"
  by (simp_all add: cleanup_def cleanup_steps)

lemma pendingClose_cleanup:
  "pendingClose (cleanup s) =
     pendingClose s @ (case sessionPromiseRef s of None \<Rightarrow> [] | Some p \<Rightarrow> [p])"
  by (simp add: cleanup_def cleanup_steps)

lemma effects_cleanup:
  "effects (cleanup s) = effects s
     @ (case scriptProcessorRef s of None \<Rightarrow> [] | Some _ \<Rightarrow> [ProcessorDisconnect])
     @ (case sourceNodeRef s of None \<Rightarrow> [] | Some _ \<Rightarrow> [SourceNodeDisconnect])
     @ (case microphoneStreamRef s of None \<Rightarrow> [] | Some tracks \<Rightarrow> map TrackStop tracks)
     @ close_call InputContextClose (inputAudioContextRef s)
     @ close_call OutputContextClose (outputAudioContextRef s)
     @ map SourceStop (outputAudioSources s)"
  by (simp add: cleanup_def cleanup_steps)

lemma cleanup_sessionState_irrelevant: "cleanup (s\<lparr>sessionState := st\<rparr>) = cleanup s"
  by (simp add: cleanup_def cleanup_steps)

lemma after_close_idem: "after_close (after_close r) = after_close r"
  by (simp add: after_close_def)

lemma close_call_after_close: "close_call e (after_close r) = []"
  by (simp add: close_call_def after_close_def)

lemma cleanup_idem: "cleanup (cleanup s) = cleanup s"
  by (rule LiveChat.equality)
     (simp_all add: cleanup_fields effects_cleanup pendingClose_cleanup
        close_call_after_close after_close_idem)

section \<open>The example sessions, evaluated\<close>

lemma finalSystemInstruction_general: "finalSystemInstruction general = systemInstruction general"
  by (simp add: finalSystemInstruction_def fetchContextFromR2_def general_def)

lemma connected_example_eq:
  "connected_example =
     \<lparr>sessionState = st_connected,
      transcriptionHistory = [],
      currentUserTranscription = [],
      currentModelTranscription = [],
      sessionPromiseRef = Some Fulfilled,
      inputAudioContextRef = Some ctx_running,
      outputAudioContextRef = Some ctx_running,
      microphoneStreamRef = Some [0],
      scriptProcessorRef = Some (),
      sourceNodeRef = Some (),
      outputAudioSources = [],
      nextAudioStartTime = 0,
      userTranscriptRef = [],
      modelTranscriptRef = [],
      effects = [LiveConnect (systemInstruction general), GetUserMedia],
      pendingClose = []\<rparr>"
  by (simp add: connected_example_def handleConnect_def handleConnect_fetch_def
      handleConnect_connect_def handleConnect_capture_def initial_def state_of_def onOpen_def
      sessionSettled_def finalSystemInstruction_general)

lemma decode_AAAAAAAA: "decode ''AAAAAAAA'' = Inr [0, 0, 0, 0, 0, 0]"
  by (simp add: decode_def atob_def ascii_whitespace_def strip_padding_def b64chars_def)

lemma decode_AAAAAA: "decode ''AAAAAA=='' = Inr [0, 0, 0, 0]"
  by (simp add: decode_def atob_def ascii_whitespace_def strip_padding_def b64chars_def)

lemma decodePCM_zeros3:
  "decodePCMAudioData [0, 0, 0, 0, 0, 0] 24000 (Suc 0)
     = Inr \<lparr>sampleRate = 24000, channels = [[0, 0, 0]]\<rparr>"
  by (simp add: decodePCMAudioData_def upt_rec word_cat_eq)

lemma decodePCM_zeros2:
  "decodePCMAudioData [0, 0, 0, 0] 24000 (Suc 0)
     = Inr \<lparr>sampleRate = 24000, channels = [[0, 0]]\<rparr>"
  by (simp add: decodePCMAudioData_def upt_rec word_cat_eq)

lemma audioData_audio_message: "audioData (audio_message payload) = Inr (Some payload)"
  by (simp add: audioData_def audio_message_def parts_message_def no_content_def)

lemma audio_message_no_text:
  "onMessage_turnComplete (audio_message payload) (onMessage_transcription (audio_message payload) s) = s"
  by (simp add: onMessage_turnComplete_def onMessage_transcription_def audio_message_def
      parts_message_def no_content_def)

text \<open>
  The numbers of the two example segments: their durations (3 and 2 frames at 24000 Hz),
  and the marker after each has been scheduled from the clock reading 1. None of the four
  is the exact quotient or sum: the arguments of \<open>binary64\<close> in the last two lemmas are
  \<open>1\<close> plus the first duration, and the first marker plus the second duration.
\<close>

lemma duration_zeros3:
  "duration \<lparr>sampleRate = 24000, channels = [[0, 0, 0]]\<rparr>
     = 1152921504606847 / 9223372036854775808"
  using binary64_eq [of "- 13" "1 / 8000"]
  by (simp add: duration_def frames_def powr_minus round_ties_even_def Let_def)

lemma duration_zeros2:
  "duration \<lparr>sampleRate = 24000, channels = [[0, 0]]\<rparr>
     = 6148914691236517 / 73786976294838206464"
  using binary64_eq [of "- 14" "1 / 12000"]
  by (simp add: duration_def frames_def powr_minus round_ties_even_def Let_def)

lemma marker_segment0:
  "binary64 (9224524958359382655 / 9223372036854775808) = 4504162577323917 / 4503599627370496"
  using binary64_eq [of 0 "9224524958359382655 / 9223372036854775808"]
  by (simp add: powr_minus round_ties_even_def Let_def)

lemma marker_segment1:
  "binary64 (73802348581566292645 / 73786976294838206464)
     = 4504537877292865 / 4503599627370496"
  using binary64_eq [of 0 "73802348581566292645 / 73786976294838206464"]
  by (simp add: powr_minus round_ties_even_def Let_def)

lemmas example_numbers = duration_zeros3 duration_zeros2 marker_segment0 marker_segment1

lemma playing_example_eq:
  "playing_example =
     connected_example
       \<lparr>outputAudioSources := [segment0, segment1],
        nextAudioStartTime := 4504537877292865 / 4503599627370496,
        effects := effects connected_example
          @ [SourceStart segment0 1,
             SourceStart segment1 (4504162577323917 / 4503599627370496)]\<rparr>"
  by (simp add: playing_example_def onMessage_def audioData_audio_message audio_message_no_text
      onMessage_audio_def onMessage_decode_def onMessage_schedule_def
      decode_AAAAAAAA decode_AAAAAA decodePCM_zeros3 decodePCM_zeros2
      state_of_def connected_example_eq segment0_def segment1_def example_numbers Let_def)

section \<open>Teardown: \<open>cleanup\<close>, \<open>onError\<close>, \<open>onClose\<close>\<close>

lemma new_effects_append: "effects s' = effects s @ es \<Longrightarrow> new_effects s s' = es"
  by (simp add: new_effects_def)

lemma effects_runPromiseJobs:
  "effects (runPromiseJobs s) =
     effects s @ map (\<lambda>_. SessionClose) (filter (\<lambda>p. p = Fulfilled) (pendingClose s))"
  by (simp add: runPromiseJobs_def)

lemma new_effects_cleanup:
  "new_effects s (cleanup s) =
     (case scriptProcessorRef s of None \<Rightarrow> [] | Some _ \<Rightarrow> [ProcessorDisconnect])
     @ (case sourceNodeRef s of None \<Rightarrow> [] | Some _ \<Rightarrow> [SourceNodeDisconnect])
     @ (case microphoneStreamRef s of None \<Rightarrow> [] | Some tracks \<Rightarrow> map TrackStop tracks)
     @ close_call InputContextClose (inputAudioContextRef s)
     @ close_call OutputContextClose (outputAudioContextRef s)
     @ map SourceStop (outputAudioSources s)"
  by (rule new_effects_append) (simp add: effects_cleanup)

lemma new_effects_teardown:
  "new_effects s (runPromiseJobs (cleanup s)) =
     new_effects s (cleanup s)
     @ map (\<lambda>_. SessionClose)
         (filter (\<lambda>p. p = Fulfilled)
            (pendingClose s @ (case sessionPromiseRef s of None \<Rightarrow> [] | Some p \<Rightarrow> [p])))"
  by (rule new_effects_append)
     (simp add: effects_runPromiseJobs pendingClose_cleanup new_effects_cleanup effects_cleanup)

lemma onError_eq_cleanup: "onError s = cleanup s"
  by (simp add: onError_def cleanup_sessionState_irrelevant)

lemma connecting_example_eq:
  "connecting_example =
     connected_example\<lparr>sessionState := st_connecting, sessionPromiseRef := Some Pending\<rparr>"
  by (simp add: connecting_example_def connected_example_eq handleConnect_def
      handleConnect_fetch_def handleConnect_connect_def handleConnect_capture_def initial_def
      state_of_def finalSystemInstruction_general)

lemma effects_chainedSettled: "effects (chainedSettled i p s) = effects s"
  by (simp add: chainedSettled_def)

lemma pendingClose_settled_after_cleanup:
  assumes "sessionPromiseRef s = Some Pending"
  shows "pendingClose (chainedSettled (length (pendingClose s)) p (cleanup s))
           = pendingClose s @ [p]"
  using assms by (simp add: chainedSettled_def pendingClose_cleanup)

lemma close_after_fulfilment:
  assumes "sessionPromiseRef s = Some Pending"
  shows "SessionClose \<in> set (new_effects s
           (runPromiseJobs (chainedSettled (length (pendingClose s)) Fulfilled (cleanup s))))"
proof -
  have "effects (runPromiseJobs (chainedSettled (length (pendingClose s)) Fulfilled (cleanup s)))
      = effects s @ (new_effects s (cleanup s)
          @ map (\<lambda>_. SessionClose) (filter (\<lambda>p. p = Fulfilled) (pendingClose s @ [Fulfilled])))"
    by (simp add: effects_runPromiseJobs effects_chainedSettled
        pendingClose_settled_after_cleanup [OF assms] new_effects_cleanup effects_cleanup)
  from new_effects_append [OF this] show ?thesis by simp
qed

lemma SessionClose_not_in_cleanup: "SessionClose \<notin> set (new_effects s (cleanup s))"
  by (auto simp add: new_effects_cleanup close_call_def split: option.splits)

lemma no_close_unless_fulfilled:
  assumes "sessionPromiseRef s \<noteq> Some Fulfilled" and "Fulfilled \<notin> set (pendingClose s)"
  shows "SessionClose \<notin> set (new_effects s (runPromiseJobs (cleanup s)))"
proof -
  from assms have "filter (\<lambda>p. p = Fulfilled)
      (pendingClose s @ (case sessionPromiseRef s of None \<Rightarrow> [] | Some p \<Rightarrow> [p])) = []"
    by (auto simp add: filter_empty_conv split: option.splits)
  then show ?thesis
    using SessionClose_not_in_cleanup [of s] by (simp add: new_effects_teardown)
qed

lemma resumed_start:
  "sessionState (handleConnect_connect agent s) = st_connecting"
  "sessionPromiseRef (handleConnect_connect agent s) = Some Pending"
  "pendingClose (handleConnect_connect agent s) = pendingClose s"
  "new_effects s (handleConnect_connect agent s)
     = [LiveConnect (finalSystemInstruction agent), GetUserMedia]"
  "sessionState (handleConnect_capture stream s) = sessionState s"
  "sessionPromiseRef (handleConnect_capture stream s) = sessionPromiseRef s"
  "pendingClose (handleConnect_capture stream s) = pendingClose s"
  "effects (handleConnect_capture stream s) = effects s"
  "microphoneStreamRef (handleConnect_capture stream s) = Some stream"
  by (simp_all add: handleConnect_connect_def handleConnect_capture_def new_effects_def)

text \<open>
  C5 (as the code has it). \<open>cleanup\<close> is the component's \<open>stop()\<close>. From every state,
  when it returns: the state is idle; the session handle, the microphone, the processor and
  the source node are released; every track of the microphone stream and every scheduled
  source has been stopped; both partial transcripts are cleared, in the refs and on
  display; and a second call changes nothing and makes no further call. The transport is
  not closed by \<open>cleanup\<close> itself: the close is chained on the session promise, if the ref
  holds one, and runs with the promise jobs once that promise is fulfilled, at the next jobs
  if it already is, and not otherwise. \<open>cleanup\<close> cancels nothing: the rest of a
  suspended \<open>handleConnect\<close> runs after it without looking at the state. Resumed after the
  context lookup it connects and leaves the state at \<open>'connecting'\<close>, with a new pending
  promise on which no close is chained; resumed after the microphone request it takes the
  microphone, with the state still idle and no call that would release it.
\<close>

theorem cleanup_idempotent_total:
  "sessionState (cleanup s) = st_idle
   \<and> sessionPromiseRef (cleanup s) = None
   \<and> microphoneStreamRef (cleanup s) = None
   \<and> scriptProcessorRef (cleanup s) = None
   \<and> sourceNodeRef (cleanup s) = None
   \<and> outputAudioSources (cleanup s) = []
   \<and> userTranscriptRef (cleanup s) = [] \<and> modelTranscriptRef (cleanup s) = []
   \<and> currentUserTranscription (cleanup s) = [] \<and> currentModelTranscription (cleanup s) = []
   \<and> (\<forall>tracks. microphoneStreamRef s = Some tracks \<longrightarrow>
         (\<forall>t \<in> set tracks. TrackStop t \<in> set (new_effects s (cleanup s))))
   \<and> (\<forall>source \<in> set (outputAudioSources s). SourceStop source \<in> set (new_effects s (cleanup s)))
   \<and> SessionClose \<notin> set (new_effects s (cleanup s))
   \<and> pendingClose (cleanup s)
       = pendingClose s @ (case sessionPromiseRef s of None \<Rightarrow> [] | Some p \<Rightarrow> [p])
   \<and> (sessionPromiseRef s = Some Fulfilled \<longrightarrow>
         SessionClose \<in> set (new_effects s (runPromiseJobs (cleanup s))))
   \<and> (sessionPromiseRef s \<noteq> Some Fulfilled \<and> Fulfilled \<notin> set (pendingClose s) \<longrightarrow>
         SessionClose \<notin> set (new_effects s (runPromiseJobs (cleanup s))))
   \<and> (sessionPromiseRef s = Some Pending \<longrightarrow>
         SessionClose \<in> set (new_effects s
           (runPromiseJobs (chainedSettled (length (pendingClose s)) Fulfilled (cleanup s)))))
   \<and> cleanup (cleanup s) = cleanup s
   \<and> sessionState (handleConnect_connect agent (cleanup s)) = st_connecting
   \<and> sessionPromiseRef (handleConnect_connect agent (cleanup s)) = Some Pending
   \<and> pendingClose (handleConnect_connect agent (cleanup s)) = pendingClose (cleanup s)
   \<and> new_effects (cleanup s) (handleConnect_connect agent (cleanup s))
       = [LiveConnect (finalSystemInstruction agent), GetUserMedia]
   \<and> sessionState (handleConnect_capture stream (handleConnect_connect agent (cleanup s)))
       = st_connecting
   \<and> microphoneStreamRef (handleConnect_capture stream (handleConnect_connect agent (cleanup s)))
       = Some stream
   \<and> sessionState (handleConnect_capture stream (cleanup s)) = st_idle
   \<and> microphoneStreamRef (handleConnect_capture stream (cleanup s)) = Some stream
   \<and> effects (handleConnect_capture stream (cleanup s)) = effects (cleanup s)"
proof -
  have tracks: "\<forall>tracks. microphoneStreamRef s = Some tracks \<longrightarrow>
         (\<forall>t \<in> set tracks. TrackStop t \<in> set (new_effects s (cleanup s)))"
    by (simp add: new_effects_cleanup)
  have sources: "\<forall>source \<in> set (outputAudioSources s).
         SourceStop source \<in> set (new_effects s (cleanup s))"
    by (simp add: new_effects_cleanup)
  have closed: "sessionPromiseRef s = Some Fulfilled \<longrightarrow>
         SessionClose \<in> set (new_effects s (runPromiseJobs (cleanup s)))"
    by (simp add: new_effects_teardown)
  have waiting: "sessionPromiseRef s \<noteq> Some Fulfilled \<and> Fulfilled \<notin> set (pendingClose s) \<longrightarrow>
         SessionClose \<notin> set (new_effects s (runPromiseJobs (cleanup s)))"
    using no_close_unless_fulfilled [of s] by blast
  have later: "sessionPromiseRef s = Some Pending \<longrightarrow>
         SessionClose \<in> set (new_effects s
           (runPromiseJobs (chainedSettled (length (pendingClose s)) Fulfilled (cleanup s))))"
    using close_after_fulfilment [of s] by blast
  show ?thesis
    using tracks sources closed waiting later SessionClose_not_in_cleanup [of s]
    by (simp add: cleanup_fields cleanup_idem pendingClose_cleanup resumed_start)
qed

theorem cleanup_idempotent_total_witness:
  "sessionState (cleanup playing_example) = st_idle
   \<and> microphoneStreamRef playing_example = Some [0]
   \<and> TrackStop 0 \<in> set (new_effects playing_example (cleanup playing_example))
   \<and> segment1 \<in> set (outputAudioSources playing_example)
   \<and> SourceStop segment1 \<in> set (new_effects playing_example (cleanup playing_example))
   \<and> sessionPromiseRef playing_example = Some Fulfilled
   \<and> pendingClose (cleanup playing_example) = [Fulfilled]
   \<and> SessionClose \<in> set (new_effects playing_example (runPromiseJobs (cleanup playing_example)))
   \<and> cleanup (cleanup playing_example) = cleanup playing_example
   \<and> sessionPromiseRef connecting_example = Some Pending
   \<and> Fulfilled \<notin> set (pendingClose connecting_example)
   \<and> pendingClose (cleanup connecting_example) = [Pending]
   \<and> SessionClose \<notin> set (new_effects connecting_example
         (runPromiseJobs (cleanup connecting_example)))
   \<and> SessionClose \<in> set (new_effects connecting_example
         (runPromiseJobs (chainedSettled 0 Fulfilled (cleanup connecting_example))))"
proof -
  have mic: "microphoneStreamRef playing_example = Some [0]"
    and src: "segment1 \<in> set (outputAudioSources playing_example)"
    and prom: "sessionPromiseRef playing_example = Some Fulfilled"
    and pc: "pendingClose playing_example = []"
    by (simp_all add: playing_example_eq connected_example_eq)
  have prom': "sessionPromiseRef connecting_example = Some Pending"
    and pc': "pendingClose connecting_example = []"
    by (simp_all add: connecting_example_eq connected_example_eq)
  from cleanup_idempotent_total [of playing_example] mic src prom pc
  have 1: "sessionState (cleanup playing_example) = st_idle
   \<and> TrackStop 0 \<in> set (new_effects playing_example (cleanup playing_example))
   \<and> SourceStop segment1 \<in> set (new_effects playing_example (cleanup playing_example))
   \<and> pendingClose (cleanup playing_example) = [Fulfilled]
   \<and> SessionClose \<in> set (new_effects playing_example (runPromiseJobs (cleanup playing_example)))
   \<and> cleanup (cleanup playing_example) = cleanup playing_example"
    by simp
  from cleanup_idempotent_total [of connecting_example] prom' pc'
  have 2: "pendingClose (cleanup connecting_example) = [Pending]
   \<and> SessionClose \<notin> set (new_effects connecting_example
         (runPromiseJobs (cleanup connecting_example)))
   \<and> SessionClose \<in> set (new_effects connecting_example
         (runPromiseJobs (chainedSettled 0 Fulfilled (cleanup connecting_example))))"
    by simp
  from 1 2 mic src prom prom' pc' show ?thesis by simp
qed

text \<open>
  C5 (as stated) fails for a \<open>cleanup\<close> called before the start has resolved. When it
  is called during the context lookup, the state is idle when it returns, but the start
  goes on, and at its end the state is \<open>'connecting'\<close>, the microphone is held, a
  connection has been requested and no close is chained on it. When it is called during
  the microphone request, the state stays idle, and the microphone granted afterwards is
  held with its track running.
\<close>

theorem stop_during_start_counterexample:
  "sessionState (cleanup (handleConnect_fetch initial)) = st_idle
   \<and> sessionState stale_start_example = st_connecting
   \<and> sessionState stale_start_example \<noteq> st_idle
   \<and> microphoneStreamRef stale_start_example = Some [0]
   \<and> sessionPromiseRef stale_start_example = Some Pending
   \<and> pendingClose stale_start_example = []
   \<and> effects stale_start_example = [LiveConnect (systemInstruction general), GetUserMedia]
   \<and> sessionState stale_capture_example = st_idle
   \<and> microphoneStreamRef stale_capture_example = Some [0]
   \<and> microphoneStreamRef stale_capture_example \<noteq> None
   \<and> pendingClose stale_capture_example = [Pending]
   \<and> effects stale_capture_example = [LiveConnect (systemInstruction general), GetUserMedia]"
  by (simp add: stale_start_example_def stale_capture_example_def resumed_start cleanup_fields
      pendingClose_cleanup handleConnect_fetch_def initial_def finalSystemInstruction_general
      handleConnect_connect_def handleConnect_capture_def effects_cleanup close_call_def)

text \<open>
  C8 (as the code has it). The calls of every teardown, in order: the processor and the
  source node are disconnected, the microphone tracks stopped and the input context closed;
  then the output context is closed and the scheduled sources are stopped. The close of the
  transport is chained on the session promise by the first statement of \<open>cleanup\<close>, but
  \<open>session.close()\<close> itself runs after all of these calls, as a promise job.
\<close>

theorem teardown_order:
  "new_effects s (cleanup s) =
     (case scriptProcessorRef s of None \<Rightarrow> [] | Some _ \<Rightarrow> [ProcessorDisconnect])
     @ (case sourceNodeRef s of None \<Rightarrow> [] | Some _ \<Rightarrow> [SourceNodeDisconnect])
     @ (case microphoneStreamRef s of None \<Rightarrow> [] | Some tracks \<Rightarrow> map TrackStop tracks)
     @ close_call InputContextClose (inputAudioContextRef s)
     @ close_call OutputContextClose (outputAudioContextRef s)
     @ map SourceStop (outputAudioSources s)
   \<and> pendingClose (cleanup s) =
       pendingClose s @ (case sessionPromiseRef s of None \<Rightarrow> [] | Some p \<Rightarrow> [p])
   \<and> new_effects s (runPromiseJobs (cleanup s)) =
       new_effects s (cleanup s)
       @ map (\<lambda>_. SessionClose) (filter (\<lambda>p. p = Fulfilled) (pendingClose (cleanup s)))"
  by (simp add: new_effects_cleanup new_effects_teardown pendingClose_cleanup)

theorem teardown_order_witness:
  "new_effects playing_example (runPromiseJobs (cleanup playing_example)) =
     [ProcessorDisconnect, SourceNodeDisconnect, TrackStop 0, InputContextClose,
      OutputContextClose, SourceStop segment0, SourceStop segment1, SessionClose]"
  using teardown_order [of playing_example]
  by (simp add: playing_example_eq connected_example_eq close_call_def)

text \<open>
  C8 (as stated) fails: in the teardown of the playing session the output context is
  closed and the sources are stopped before the transport is closed.
\<close>

theorem teardown_order_counterexample:
  "\<not> spec_teardown_order (new_effects playing_example (runPromiseJobs (cleanup playing_example)))"
proof -
  have "new_effects playing_example (runPromiseJobs (cleanup playing_example)) =
     [ProcessorDisconnect, SourceNodeDisconnect, TrackStop 0, InputContextClose,
      OutputContextClose, SourceStop segment0, SourceStop segment1, SessionClose]"
    by (simp add: new_effects_teardown new_effects_cleanup playing_example_eq
        connected_example_eq close_call_def)
  then show ?thesis by (simp add: spec_teardown_order_def)
qed

text \<open>
  C4, evaluated on the connected session. \<open>onError\<close> sets the state to \<open>'error'\<close> and then
  calls \<open>cleanup\<close>, whose \<open>setSessionState('idle')\<close> comes last: the teardown is that of
  \<open>cleanup\<close>, and the state the handler leaves is idle, not error.
\<close>

theorem onError_leaves_idle:
  "sessionState connected_example = st_connected
   \<and> onError connected_example = cleanup connected_example
   \<and> onClose connected_example = cleanup connected_example
   \<and> sessionState (onError connected_example) = st_idle
   \<and> sessionState (onError connected_example) \<noteq> st_error"
  by (simp add: onError_eq_cleanup onClose_def cleanup_fields connected_example_eq)

section \<open>The message handler\<close>

lemma onMessage_transcription_fields:
  "transcriptionHistory (onMessage_transcription m s) = transcriptionHistory s"
  "effects (onMessage_transcription m s) = effects s"
  "nextAudioStartTime (onMessage_transcription m s) = nextAudioStartTime s"
  "outputAudioSources (onMessage_transcription m s) = outputAudioSources s"
  "outputAudioContextRef (onMessage_transcription m s) = outputAudioContextRef s"
  by (simp_all add: onMessage_transcription_def Let_def split: option.splits)

lemma onMessage_turnComplete_fields:
  "effects (onMessage_turnComplete m s) = effects s"
  "nextAudioStartTime (onMessage_turnComplete m s) = nextAudioStartTime s"
  "outputAudioSources (onMessage_turnComplete m s) = outputAudioSources s"
  "outputAudioContextRef (onMessage_turnComplete m s) = outputAudioContextRef s"
  by (simp_all add: onMessage_turnComplete_def Let_def)

lemma onMessage_audio_text_fields:
  "transcriptionHistory (state_of (onMessage_audio t a s)) = transcriptionHistory s"
  "userTranscriptRef (state_of (onMessage_audio t a s)) = userTranscriptRef s"
  "modelTranscriptRef (state_of (onMessage_audio t a s)) = modelTranscriptRef s"
  "currentUserTranscription (state_of (onMessage_audio t a s)) = currentUserTranscription s"
  "currentModelTranscription (state_of (onMessage_audio t a s)) = currentModelTranscription s"
  by (simp_all add: onMessage_audio_def onMessage_decode_def onMessage_schedule_def
      state_of_def Let_def split: sum.splits)

lemma onMessage_text_fields:
  "transcriptionHistory (state_of (onMessage t m s))
     = transcriptionHistory (onMessage_turnComplete m (onMessage_transcription m s))"
  "userTranscriptRef (state_of (onMessage t m s))
     = userTranscriptRef (onMessage_turnComplete m (onMessage_transcription m s))"
  "modelTranscriptRef (state_of (onMessage t m s))
     = modelTranscriptRef (onMessage_turnComplete m (onMessage_transcription m s))"
  "currentUserTranscription (state_of (onMessage t m s))
     = currentUserTranscription (onMessage_turnComplete m (onMessage_transcription m s))"
  "currentModelTranscription (state_of (onMessage t m s))
     = currentModelTranscription (onMessage_turnComplete m (onMessage_transcription m s))"
  by (simp_all add: onMessage_def Let_def onMessage_audio_text_fields
      split: sum.splits option.splits)
     (simp_all add: state_of_def)

text \<open>
  C7 (as the code has it). On a turn-complete message the handler appends exactly two
  entries, the user's buffer and then the model's buffer (each as it stands after the
  transcription carried by the same message has been added), whether or not a buffer is
  empty, and clears both buffers and both displayed texts.
\<close>

theorem turnComplete_appends_pair:
  assumes "Option.bind (serverContent message) turnComplete = Some True"
  shows "transcriptionHistory (state_of (onMessage t message s)) =
           transcriptionHistory s
           @ [\<lparr>speaker = user,
                entry_text = userTranscriptRef (onMessage_transcription message s)\<rparr>,
               \<lparr>speaker = model,
                entry_text = modelTranscriptRef (onMessage_transcription message s)\<rparr>]
         \<and> userTranscriptRef (state_of (onMessage t message s)) = []
         \<and> modelTranscriptRef (state_of (onMessage t message s)) = []
         \<and> currentUserTranscription (state_of (onMessage t message s)) = []
         \<and> currentModelTranscription (state_of (onMessage t message s)) = []"
  using assms
  by (simp add: onMessage_text_fields onMessage_turnComplete_def Let_def
      onMessage_transcription_fields)

lemma hello_example_buffers:
  "userTranscriptRef hello_example = ''hello''"
  "modelTranscriptRef hello_example = ''hi there''"
  "transcriptionHistory hello_example = []"
  by (simp_all add: hello_example_def onMessage_text_fields onMessage_transcription_def
      onMessage_turnComplete_def input_text_message_def output_text_message_def no_content_def
      js_string_def connected_example_eq Let_def)

lemma turn_complete_message_plain:
  "Option.bind (serverContent turn_complete_message) turnComplete = Some True"
  "onMessage_transcription turn_complete_message s = s"
  by (simp_all add: turn_complete_message_def no_content_def onMessage_transcription_def)

theorem turnComplete_appends_pair_witness:
  "Option.bind (serverContent turn_complete_message) turnComplete = Some True
   \<and> transcriptionHistory (state_of (onMessage 0 turn_complete_message hello_example)) =
       [\<lparr>speaker = user, entry_text = ''hello''\<rparr>, \<lparr>speaker = model, entry_text = ''hi there''\<rparr>]
   \<and> userTranscriptRef (state_of (onMessage 0 turn_complete_message hello_example)) = []
   \<and> modelTranscriptRef (state_of (onMessage 0 turn_complete_message hello_example)) = []"
  using turnComplete_appends_pair [of turn_complete_message 0 hello_example]
  by (simp add: turn_complete_message_plain hello_example_buffers)

lemma model_only_example_buffers:
  "userTranscriptRef model_only_example = []"
  "modelTranscriptRef model_only_example = ''hi there''"
  "transcriptionHistory model_only_example = []"
  by (simp_all add: model_only_example_def onMessage_text_fields onMessage_transcription_def
      onMessage_turnComplete_def output_text_message_def no_content_def
      js_string_def connected_example_eq Let_def)

text \<open>
  C7 (as stated) fails: with an empty user buffer the handler still appends a user entry,
  with empty text, where only the model's entry would be appended for non-empty buffers.
\<close>

theorem turnComplete_empty_buffer_counterexample:
  "transcriptionHistory (state_of (onMessage 0 turn_complete_message model_only_example))
     = [\<lparr>speaker = user, entry_text = []\<rparr>, \<lparr>speaker = model, entry_text = ''hi there''\<rparr>]
   \<and> transcriptionHistory (state_of (onMessage 0 turn_complete_message model_only_example))
     \<noteq> transcriptionHistory model_only_example
         @ spec_onTurnComplete_entries (userTranscriptRef model_only_example)
             (modelTranscriptRef model_only_example)"
  by (simp add: onMessage_text_fields onMessage_turnComplete_def turn_complete_message_plain
      model_only_example_buffers spec_onTurnComplete_entries_def Let_def)

text \<open>
  C10. A message without \<open>serverContent\<close>, without \<open>modelTurn\<close>, or with an empty parts
  list is handled to the end and schedules nothing: the result is the state left by the
  transcript steps. A message whose first part has no \<open>inlineData\<close> makes the handler
  throw a \<open>TypeError\<close>, after the transcript steps have taken effect.
\<close>

theorem audio_step_partial:
  "(serverContent m = None \<longrightarrow>
      onMessage t m s = Inr (onMessage_turnComplete m (onMessage_transcription m s)))
   \<and> (serverContent m = Some sc \<and> modelTurn sc = None \<longrightarrow>
      onMessage t m s = Inr (onMessage_turnComplete m (onMessage_transcription m s)))
   \<and> (serverContent m = Some sc \<and> modelTurn sc = Some mt \<and> parts mt = Some [] \<longrightarrow>
      onMessage t m s = Inr (onMessage_turnComplete m (onMessage_transcription m s)))
   \<and> effects (onMessage_turnComplete m (onMessage_transcription m s)) = effects s
   \<and> outputAudioSources (onMessage_turnComplete m (onMessage_transcription m s))
       = outputAudioSources s
   \<and> nextAudioStartTime (onMessage_turnComplete m (onMessage_transcription m s))
       = nextAudioStartTime s
   \<and> (serverContent m = Some sc \<and> modelTurn sc = Some mt \<and> parts mt = Some (p # ps)
        \<and> inlineData p = None \<longrightarrow>
      onMessage t m s = Inl (TypeError, onMessage_turnComplete m (onMessage_transcription m s)))"
  by (simp add: onMessage_def audioData_def Let_def onMessage_turnComplete_fields
      onMessage_transcription_fields)

theorem audio_step_partial_witness:
  "onMessage 0 empty_message connected_example = Inr connected_example
   \<and> onMessage 0 turn_complete_message connected_example
       = Inr (onMessage_turnComplete turn_complete_message connected_example)
   \<and> onMessage 0 (parts_message []) connected_example = Inr connected_example
   \<and> onMessage 0 text_part_message connected_example = Inl (TypeError, connected_example)"
proof -
  have e: "serverContent empty_message = None"
    and et: "onMessage_turnComplete empty_message (onMessage_transcription empty_message s) = s"
    for s
    by (simp_all add: empty_message_def onMessage_turnComplete_def onMessage_transcription_def)
  have tc: "serverContent turn_complete_message = Some (no_content\<lparr>turnComplete := Some True\<rparr>)
            \<and> modelTurn (no_content\<lparr>turnComplete := Some True\<rparr>) = None"
    by (simp add: turn_complete_message_def no_content_def)
  have pm: "serverContent (parts_message ps) = Some (no_content\<lparr>modelTurn := Some \<lparr>parts = Some ps\<rparr>\<rparr>)
            \<and> modelTurn (no_content\<lparr>modelTurn := Some \<lparr>parts = Some ps\<rparr>\<rparr>) = Some \<lparr>parts = Some ps\<rparr>
            \<and> parts \<lparr>parts = Some ps\<rparr> = Some ps"
    and pt: "onMessage_turnComplete (parts_message ps) (onMessage_transcription (parts_message ps) s) = s"
    for ps s
    by (simp_all add: parts_message_def no_content_def onMessage_turnComplete_def
        onMessage_transcription_def)
  have il: "inlineData \<lparr>inlineData = None\<rparr> = None" by simp
  from audio_step_partial [where m = empty_message and t = 0 and s = connected_example] e et
  have 1: "onMessage 0 empty_message connected_example = Inr connected_example" by simp
  from audio_step_partial [where m = turn_complete_message and t = 0 and s = connected_example
      and sc = "no_content\<lparr>turnComplete := Some True\<rparr>"] tc
  have 2: "onMessage 0 turn_complete_message connected_example
       = Inr (onMessage_turnComplete turn_complete_message connected_example)"
    by (simp add: turn_complete_message_plain)
  from audio_step_partial [where m = "parts_message []" and t = 0 and s = connected_example
      and sc = "no_content\<lparr>modelTurn := Some \<lparr>parts = Some []\<rparr>\<rparr>" and mt = "\<lparr>parts = Some []\<rparr>"] pm [of "[]"] pt [of "[]"]
  have 3: "onMessage 0 (parts_message []) connected_example = Inr connected_example" by simp
  from audio_step_partial [where m = text_part_message and t = 0 and s = connected_example
      and sc = "no_content\<lparr>modelTurn := Some \<lparr>parts = Some [\<lparr>inlineData = None\<rparr>]\<rparr>\<rparr>"
      and mt = "\<lparr>parts = Some [\<lparr>inlineData = None\<rparr>]\<rparr>" and p = "\<lparr>inlineData = None\<rparr>" and ps = "[]"]
    pm [of "[\<lparr>inlineData = None\<rparr>]"] pt [of "[\<lparr>inlineData = None\<rparr>]"] il
  have 4: "onMessage 0 text_part_message connected_example = Inl (TypeError, connected_example)"
    by (simp add: text_part_message_def)
  from 1 2 3 4 show ?thesis by simp
qed

section \<open>Starting a session\<close>

text \<open>
  C6 (as the code has it). Outside the idle and error states \<open>handleConnect\<close> returns at
  its guard: the promise it returns is fulfilled, nothing is thrown or rejected, and the
  state, with the session it holds, is exactly what it was.
\<close>

theorem handleConnect_guard:
  assumes "sessionState s \<noteq> st_idle" and "sessionState s \<noteq> st_error"
  shows "handleConnect agent media s = Inr s"
  using assms by (simp add: handleConnect_def)

theorem handleConnect_guard_witness:
  "sessionState playing_example \<noteq> st_idle \<and> sessionState playing_example \<noteq> st_error
   \<and> handleConnect language_tutor (Some [1]) playing_example = Inr playing_example"
proof -
  have st: "sessionState playing_example = st_connected"
    by (simp add: playing_example_eq connected_example_eq)
  from handleConnect_guard [of playing_example language_tutor "Some [1]"] st
  show ?thesis by simp
qed

text \<open>
  C6 (as stated) fails: on the connected session the call does not fail at all, with
  \<open>InvalidState\<close> or otherwise.
\<close>

theorem handleConnect_no_rejection_counterexample:
  "sessionState connected_example = st_connected
   \<and> \<not> isl (handleConnect general (Some [0]) connected_example)"
  by (simp add: handleConnect_def connected_example_eq)

lemma sublist_finalSystemInstruction:
  "sublist p (systemInstruction agent) \<Longrightarrow> sublist p (finalSystemInstruction agent)"
  by (simp add: finalSystemInstruction_def Let_def sublist_append)

lemma language_tutor_has_placeholder: "sublist ''{language}'' (systemInstruction language_tutor)"
  unfolding language_tutor_def by (simp add: sublist_append)

text \<open>
  C9, evaluated on the language tutor. The instruction handed to \<open>ai.live.connect\<close> is
  the agent's template followed by the context block; nothing is substituted, and the
  placeholder \<open>{language}\<close> is still in it.
\<close>

theorem language_tutor_placeholder_kept:
  "effects (state_of (handleConnect language_tutor (Some [0]) initial))
     = [LiveConnect (finalSystemInstruction language_tutor), GetUserMedia]
   \<and> sublist ''{language}'' (finalSystemInstruction language_tutor)"
  using sublist_finalSystemInstruction [OF language_tutor_has_placeholder]
  by (simp add: handleConnect_def handleConnect_fetch_def handleConnect_connect_def
      handleConnect_capture_def initial_def state_of_def)

section \<open>Playback scheduling\<close>

lemma scheduled_append: "scheduled (es @ es') = scheduled es @ scheduled es'"
  by (induction es rule: scheduled.induct) simp_all

lemma no_overlap_snoc:
  "no_overlap (segs @ [(start, d)]) = (no_overlap segs \<and> ends_by start segs)"
  by (induction segs rule: no_overlap.induct) (auto simp add: ends_by_def)

lemma ends_by_mono: "ends_by e segs \<Longrightarrow> e \<le> e' \<Longrightarrow> ends_by e' segs"
  by (simp add: ends_by_def split: if_splits)

lemma onMessage_decode_Inl:
  assumes "onMessage_decode t audio s = Inl (e, s')"
  shows "effects s' = effects s \<and> nextAudioStartTime s' = max (nextAudioStartTime s) t"
  using assms
  by (auto simp add: onMessage_decode_def Let_def split: sum.splits)

lemma onMessage_decode_Inr:
  assumes "onMessage_decode t audio s = Inr (s', audioBuffer)"
  shows "s' = s\<lparr>nextAudioStartTime := max (nextAudioStartTime s) t\<rparr>"
  using assms
  by (auto simp add: onMessage_decode_def Let_def split: sum.splits)

lemma onMessage_schedule_fields:
  "effects (onMessage_schedule audioBuffer s)
     = effects s @ [SourceStart \<lparr>buffer = audioBuffer\<rparr> (nextAudioStartTime s)]"
  "outputAudioSources (onMessage_schedule audioBuffer s)
     = outputAudioSources s @ [\<lparr>buffer = audioBuffer\<rparr>]"
  "nextAudioStartTime (onMessage_schedule audioBuffer s)
     = binary64 (nextAudioStartTime s + duration audioBuffer)"
  by (simp_all add: onMessage_schedule_def Let_def)

lemma onMessage_audio_Inr:
  assumes "onMessage_audio t audio s = Inr s'"
  shows "\<exists>source. effects s' = effects s @ [SourceStart source (max (nextAudioStartTime s) t)]
           \<and> outputAudioSources s' = outputAudioSources s @ [source]
           \<and> nextAudioStartTime s'
               = binary64 (max (nextAudioStartTime s) t + duration (buffer source))"
proof -
  from assms obtain s1 audioBuffer where
    d: "onMessage_decode t audio s = Inr (s1, audioBuffer)" and
    s': "s' = onMessage_schedule audioBuffer s1"
    by (auto simp add: onMessage_audio_def split: sum.splits)
  from onMessage_decode_Inr [OF d] s' show ?thesis
    by (intro exI [of _ "\<lparr>buffer = audioBuffer\<rparr>"]) (simp add: onMessage_schedule_fields)
qed

lemma sched_inv_raise:
  "sched_inv s \<Longrightarrow> sched_inv (s\<lparr>nextAudioStartTime := max (nextAudioStartTime s) t\<rparr>)"
  by (auto simp add: sched_inv_def intro: ends_by_mono)

lemma sched_inv_onMessage_schedule:
  assumes "sched_inv s"
  shows "sched_inv (onMessage_schedule audioBuffer s)"
  using assms
  by (simp add: sched_inv_def onMessage_schedule_fields scheduled_append no_overlap_snoc
      ends_by_def)

lemma sched_inv_onMessage_decode:
  assumes "sched_inv s"
  shows "case onMessage_decode t audio s of
           Inl (e, s') \<Rightarrow> sched_inv s'
         | Inr (s', audioBuffer) \<Rightarrow> sched_inv s'"
  using sched_inv_raise [OF assms, of t]
  by (simp add: onMessage_decode_def Let_def split: sum.splits)

lemma sched_inv_onMessage_audio:
  assumes "sched_inv s"
  shows "sched_inv (state_of (onMessage_audio t audio s))"
  using sched_inv_onMessage_decode [OF assms, of t audio]
  by (auto simp add: onMessage_audio_def state_of_def sched_inv_onMessage_schedule
      split: sum.splits)

lemma sched_inv_text_steps:
  "sched_inv (onMessage_turnComplete m (onMessage_transcription m s)) = sched_inv s"
  by (simp add: sched_inv_def onMessage_turnComplete_fields onMessage_transcription_fields)

lemma sched_inv_onMessage:
  assumes "sched_inv s"
  shows "sched_inv (state_of (onMessage t m s))"
proof -
  let ?s2 = "onMessage_turnComplete m (onMessage_transcription m s)"
  from assms have s2: "sched_inv ?s2" by (simp add: sched_inv_text_steps)
  show ?thesis
  proof (cases "audioData m")
    case (Inl e)
    with s2 show ?thesis by (simp add: onMessage_def state_of_def)
  next
    case (Inr v)
    show ?thesis
    proof (cases v)
      case None
      with Inr s2 show ?thesis by (simp add: onMessage_def state_of_def)
    next
      case (Some audio)
      with Inr s2 sched_inv_onMessage_audio [OF s2, of t audio] show ?thesis
        by (simp add: onMessage_def state_of_def Let_def)
    qed
  qed
qed

lemma sched_inv_run_messages: "sched_inv s \<Longrightarrow> sched_inv (run_messages msgs s)"
  by (induction msgs s rule: run_messages.induct) (simp_all add: sched_inv_onMessage)

lemma onMessage_begin_resume:
  "onMessage t m s =
     (case onMessage_begin t m s of
        Inl r \<Rightarrow> Inl r
      | Inr (s1, None) \<Rightarrow> Inr s1
      | Inr (s1, Some audioBuffer) \<Rightarrow> Inr (onMessage_schedule audioBuffer s1))"
  by (simp add: onMessage_def onMessage_begin_def onMessage_audio_def Let_def
      split: sum.splits option.splits)

lemma sched_inv_onMessage_begin:
  assumes "sched_inv s"
  shows "case onMessage_begin t m s of
           Inl (e, s') \<Rightarrow> sched_inv s'
         | Inr (s', waiting) \<Rightarrow> sched_inv s'"
proof -
  let ?s2 = "onMessage_turnComplete m (onMessage_transcription m s)"
  from assms have s2: "sched_inv ?s2" by (simp add: sched_inv_text_steps)
  show ?thesis
  proof (cases "audioData m")
    case (Inl e)
    with s2 show ?thesis by (simp add: onMessage_begin_def)
  next
    case (Inr v)
    show ?thesis
    proof (cases v)
      case None
      with Inr s2 show ?thesis by (simp add: onMessage_begin_def)
    next
      case (Some audio)
      with Inr s2 sched_inv_onMessage_decode [OF s2, of t audio] show ?thesis
        by (auto simp add: onMessage_begin_def Let_def split: sum.splits)
    qed
  qed
qed

lemma sched_inv_run_events:
  "sched_inv s \<Longrightarrow> sched_inv (fst (run_events es (s, waiting)))"
proof (induction es "(s, waiting)" arbitrary: s waiting rule: run_events.induct)
  case (2 currentTime message es s waiting)
  from sched_inv_onMessage_begin [OF "2.prems", of currentTime message]
  show ?case
    by (auto simp add: split: sum.splits option.splits intro: "2.hyps")
next
  case (4 es s audioBuffer waiting)
  then show ?case by (simp add: sched_inv_onMessage_schedule)
next
  case (5 source es s waiting)
  then show ?case by (simp add: sched_inv_def onEnded_def)
qed simp_all

text \<open>
  The computed end of a segment is the rounded sum of its start and its duration: within
  half a unit in the last place of the exact sum, which it need not reach.
\<close>

lemma computed_end_error:
  "\<bar>nextAudioStartTime (onMessage_schedule audioBuffer s)
      - (nextAudioStartTime s + duration audioBuffer)\<bar>
     \<le> 2 powr of_int (ulp_exponent (nextAudioStartTime s + duration audioBuffer)) / 2"
  unfolding onMessage_schedule_fields by (rule binary64_error)

lemma scheduled_onMessage_schedule:
  "scheduled (new_effects s (onMessage_schedule audioBuffer s))
     = [(nextAudioStartTime s, nextAudioStartTime (onMessage_schedule audioBuffer s))]"
  by (simp add: new_effects_def onMessage_schedule_fields)

text \<open>
  C1. The scheduling step, when it is reached and the payload decodes, starts the new
  source at the maximum of the clock reading and the marker \<open>nextAudioStartTime\<close>, and
  leaves in the marker the sum of that start and the buffer's duration, as the language's
  addition computes it; that number is the computed end of the segment. Consequently,
  whatever messages a session receives, whatever the clock reads at each of them, and
  however the waiting handlers interleave, no scheduled segment starts before the computed
  end of the segment scheduled before it.
\<close>

theorem playback_no_overlap:
  "(onMessage_audio t audio s = Inr s' \<longrightarrow>
      (\<exists>source. effects s' = effects s @ [SourceStart source (max (nextAudioStartTime s) t)]
         \<and> outputAudioSources s' = outputAudioSources s @ [source]
         \<and> nextAudioStartTime s'
             = binary64 (max (nextAudioStartTime s) t + duration (buffer source))))
   \<and> scheduled (new_effects s (onMessage_schedule audioBuffer s))
       = [(nextAudioStartTime s, nextAudioStartTime (onMessage_schedule audioBuffer s))]
   \<and> (sched_inv s \<longrightarrow> sched_inv (run_messages msgs s))
   \<and> (scheduled (effects s) = [] \<longrightarrow> no_overlap (scheduled (effects (run_messages msgs s))))
   \<and> (sched_inv s \<longrightarrow> sched_inv (fst (run_events es (s, waiting))))
   \<and> (scheduled (effects s) = [] \<longrightarrow>
        no_overlap (scheduled (effects (fst (run_events es (s, waiting))))))"
proof -
  have init: "sched_inv s" if "scheduled (effects s) = []"
    using that by (simp add: sched_inv_def ends_by_def)
  have 1: "scheduled (effects s) = [] \<longrightarrow> no_overlap (scheduled (effects (run_messages msgs s)))"
    using sched_inv_run_messages [OF init, of msgs] by (simp add: sched_inv_def)
  have 2: "scheduled (effects s) = [] \<longrightarrow>
        no_overlap (scheduled (effects (fst (run_events es (s, waiting)))))"
    using sched_inv_run_events [OF init, of es waiting] by (simp add: sched_inv_def)
  have 3: "onMessage_audio t audio s = Inr s' \<longrightarrow>
      (\<exists>source. effects s' = effects s @ [SourceStart source (max (nextAudioStartTime s) t)]
         \<and> outputAudioSources s' = outputAudioSources s @ [source]
         \<and> nextAudioStartTime s'
             = binary64 (max (nextAudioStartTime s) t + duration (buffer source)))"
    by (auto dest: onMessage_audio_Inr)
  from 1 2 3 scheduled_onMessage_schedule [of s audioBuffer] show ?thesis
    by (simp add: sched_inv_run_messages sched_inv_run_events)
qed

lemma first_segment:
  "onMessage_audio 1 ''AAAAAAAA'' connected_example =
     Inr (connected_example
       \<lparr>outputAudioSources := [segment0],
        nextAudioStartTime := 4504162577323917 / 4503599627370496,
        effects := effects connected_example @ [SourceStart segment0 1]\<rparr>)"
  by (simp add: onMessage_audio_def onMessage_decode_def onMessage_schedule_def
      decode_AAAAAAAA decodePCM_zeros3 connected_example_eq
      segment0_def example_numbers Let_def)

lemma interleaved_events_result:
  "fst (run_events interleaved_events (connected_example, [])) = playing_example"
  by (simp add: interleaved_events_def onMessage_begin_def audioData_audio_message
      audio_message_no_text onMessage_decode_def onMessage_schedule_def
      decode_AAAAAAAA decode_AAAAAA decodePCM_zeros3 decodePCM_zeros2
      playing_example_eq connected_example_eq segment0_def segment1_def
      example_numbers Let_def)

lemma scheduled_playing_example:
  "scheduled (effects playing_example) =
     [(1, 4504162577323917 / 4503599627370496),
      (4504162577323917 / 4503599627370496, 4504537877292865 / 4503599627370496)]"
  by (simp add: playing_example_eq connected_example_eq segment0_def segment1_def
      example_numbers)

text \<open>
  In the example the second segment starts exactly at the computed end of the first, and
  the exact sum of the first start and the first duration lies \<open>639 / 2^63\<close> after it.
\<close>

lemma playing_example_exact_sum:
  "1 + duration (buffer segment0) - fst (scheduled (effects playing_example) ! 1)
     = 639 / 9223372036854775808"
  by (simp add: scheduled_playing_example segment0_def duration_zeros3)

theorem playback_no_overlap_witness:
  "(\<exists>source. effects (connected_example
        \<lparr>outputAudioSources := [segment0],
         nextAudioStartTime := 4504162577323917 / 4503599627370496,
         effects := effects connected_example @ [SourceStart segment0 1]\<rparr>)
       = effects connected_example @ [SourceStart source (max (nextAudioStartTime connected_example) 1)])
   \<and> scheduled (effects connected_example) = []
   \<and> sched_inv connected_example
   \<and> scheduled (effects playing_example) =
       [(1, 4504162577323917 / 4503599627370496),
        (4504162577323917 / 4503599627370496, 4504537877292865 / 4503599627370496)]
   \<and> no_overlap (scheduled (effects playing_example))
   \<and> sched_inv playing_example
   \<and> scheduled (effects (fst (run_events interleaved_events (connected_example, []))))
       = [(1, 4504162577323917 / 4503599627370496),
          (4504162577323917 / 4503599627370496, 4504537877292865 / 4503599627370496)]
   \<and> no_overlap (scheduled (effects (fst (run_events interleaved_events (connected_example, [])))))"
proof -
  have empty: "scheduled (effects connected_example) = []"
    by (simp add: connected_example_eq)
  then have inv: "sched_inv connected_example"
    by (simp add: sched_inv_def ends_by_def)
  from playback_no_overlap [where t = 1 and audio = "''AAAAAAAA''" and s = connected_example
      and msgs = "[(1, audio_message ''AAAAAAAA''), (1, audio_message ''AAAAAA=='')]"
      and es = interleaved_events and waiting = "[]"
      and s' = "connected_example
        \<lparr>outputAudioSources := [segment0],
         nextAudioStartTime := 4504162577323917 / 4503599627370496,
         effects := effects connected_example @ [SourceStart segment0 1]\<rparr>"]
    first_segment empty inv scheduled_playing_example
  show ?thesis by (simp add: playing_example_def interleaved_events_result)
qed

lemma sublist_Cons_in_set: "sublist (x # xs) ys \<Longrightarrow> x \<in> set ys"
  by (auto simp add: sublist_def)

lemma replace_language_plain:
  "CHR ''{'' \<notin> set xs \<Longrightarrow> replace_language r (xs @ ys) = xs @ replace_language r ys"
  by (induction xs) auto

lemma replace_language_placeholder:
  "replace_language r (''{language}'' @ ys) = r @ replace_language r ys"
  by simp

lemma tutor_texts_plain:
  "CHR ''{'' \<notin> set tutor_text1" "CHR ''{'' \<notin> set tutor_text2" "CHR ''{'' \<notin> set tutor_text3"
  by (simp_all add: tutor_text1_def tutor_text2_def tutor_text3_def)

lemma getSystemInstruction_language_tutor:
  "getSystemInstruction language_tutor selectedLanguage
     = tutor_text1 @ selectedLanguage @ tutor_text2 @ selectedLanguage @ tutor_text3"
proof -
  have "replace_language selectedLanguage tutor_text3 = tutor_text3"
    using replace_language_plain [OF tutor_texts_plain(3), of selectedLanguage "[]"] by simp
  then show ?thesis
    by (simp only: getSystemInstruction_def language_tutor_def Agent.simps simp_thms if_True
        replace_language_plain [OF tutor_texts_plain(1)]
        replace_language_plain [OF tutor_texts_plain(2)] replace_language_placeholder)
qed

lemma French_instruction_has_no_placeholder:
  "\<not> sublist ''{language}'' (getSystemInstruction language_tutor ''French'')"
proof -
  have "CHR ''{'' \<notin> set (getSystemInstruction language_tutor ''French'')"
    by (simp add: getSystemInstruction_language_tutor tutor_texts_plain)
  then show ?thesis by (auto dest: sublist_Cons_in_set)
qed

end
